theory Spec2Isabelle
  imports Main
begin

section \<open>Tensors\<close>

text \<open>
  A two-dimensional torch tensor is its shape together with its rows. The shape is kept
  beside the data because a tensor of shape \<open>[0, L]\<close> has no row that could tell \<open>L\<close>,
  and the source reads \<open>batch_size, seq_length = input_ids.shape\<close>.
\<close>

record 'a tensor2 =
  dim0 :: nat
  dim1 :: nat
  rows :: "'a list list"

text \<open>A three-dimensional tensor, for the stacked class scores \<open>[batch, 2L, 2]\<close>.\<close>

record 'a tensor3 =
  size0 :: nat
  size1 :: nat
  size2 :: nat
  planes :: "'a list list list"

definition wf2 :: "'a tensor2 \<Rightarrow> bool" where
  "wf2 t = (length (rows t) = dim0 t \<and> list_all (\<lambda>r. length r = dim1 t) (rows t))"

definition wf3 :: "'a tensor3 \<Rightarrow> bool" where
  "wf3 t = (length (planes t) = size0 t \<and>
     list_all (\<lambda>p. length p = size1 t \<and> list_all (\<lambda>r. length r = size2 t) p) (planes t))"

text \<open>\<open>t[i, j]\<close> for indices inside the shape.\<close>

definition at2 :: "'a tensor2 \<Rightarrow> nat \<Rightarrow> nat \<Rightarrow> 'a" where
  "at2 t i j = rows t ! i ! j"

definition at3 :: "'a tensor3 \<Rightarrow> nat \<Rightarrow> nat \<Rightarrow> nat \<Rightarrow> 'a" where
  "at3 t i j k = planes t ! i ! j ! k"

text \<open>The tensor of a given shape whose entry at \<open>(i, j)\<close> is \<open>f i j\<close>.\<close>

definition tabulate2 :: "nat \<Rightarrow> nat \<Rightarrow> (nat \<Rightarrow> nat \<Rightarrow> 'a) \<Rightarrow> 'a tensor2" where
  "tabulate2 m n f =
     \<lparr>dim0 = m, dim1 = n, rows = map (\<lambda>i. map (\<lambda>j. f i j) [0..<n]) [0..<m]\<rparr>"

definition tabulate3 :: "nat \<Rightarrow> nat \<Rightarrow> nat \<Rightarrow> (nat \<Rightarrow> nat \<Rightarrow> nat \<Rightarrow> 'a) \<Rightarrow> 'a tensor3" where
  "tabulate3 m n q f =
     \<lparr>size0 = m, size1 = n, size2 = q,
      planes = map (\<lambda>i. map (\<lambda>j. map (\<lambda>k. f i j k) [0..<q]) [0..<n]) [0..<m]\<rparr>"

datatype error = IndexError | RuntimeError

text \<open>Sequencing of fallible steps: the first raise ends the computation.\<close>

definition bind :: "error + 'a \<Rightarrow> ('a \<Rightarrow> error + 'b) \<Rightarrow> error + 'b" where
  "bind m f = (case m of Inl e \<Rightarrow> Inl e | Inr x \<Rightarrow> f x)"

subsection \<open>The torch operations the model calls\<close>

text \<open>\<open>torch.ones(m, n, dtype=torch.bool)\<close>.\<close>

definition ones_bool :: "nat \<Rightarrow> nat \<Rightarrow> bool tensor2" where
  "ones_bool m n = tabulate2 m n (\<lambda>i j. True)"

text \<open>
  \<open>torch.triu(t, diagonal=d)\<close>: the entries on and above the \<open>d\<close>-th diagonal
  (\<open>j - i \<ge> d\<close>) are kept, the others are set to zero, which is \<open>False\<close> for a bool tensor.
\<close>

definition triu :: "bool tensor2 \<Rightarrow> int \<Rightarrow> bool tensor2" where
  "triu t d = tabulate2 (dim0 t) (dim1 t)
     (\<lambda>i j. if d \<le> int j - int i then at2 t i j else False)"

text \<open>\<open>torch.eye(n, dtype=torch.bool)\<close>.\<close>

definition eye :: "nat \<Rightarrow> bool tensor2" where
  "eye n = tabulate2 n n (\<lambda>i j. i = j)"

text \<open>The operator \<open>~\<close> on a bool tensor.\<close>

definition invert :: "bool tensor2 \<Rightarrow> bool tensor2" where
  "invert t = tabulate2 (dim0 t) (dim1 t) (\<lambda>i j. \<not> at2 t i j)"

text \<open>
  \<open>torch.cat([a, b], dim=1)\<close> and \<open>torch.cat([a, b], dim=0)\<close>: the sizes of the other
  dimension must agree, otherwise torch raises a RuntimeError.
\<close>

definition cat_dim1 :: "'a tensor2 \<Rightarrow> 'a tensor2 \<Rightarrow> error + 'a tensor2" where
  "cat_dim1 a b =
     (if dim0 a \<noteq> dim0 b then Inl RuntimeError
      else Inr (tabulate2 (dim0 a) (dim1 a + dim1 b)
        (\<lambda>i j. if j < dim1 a then at2 a i j else at2 b i (j - dim1 a))))"

definition cat_dim0 :: "'a tensor2 \<Rightarrow> 'a tensor2 \<Rightarrow> error + 'a tensor2" where
  "cat_dim0 a b =
     (if dim1 a \<noteq> dim1 b then Inl RuntimeError
      else Inr (tabulate2 (dim0 a + dim0 b) (dim1 a)
        (\<lambda>i j. if i < dim0 a then at2 a i j else at2 b (i - dim0 a) j)))"

section \<open>The attention mask of the arc pass\<close>

text \<open>
  \<open>ArcLmModel._get_arc_mask\<close>. Of \<open>input_ids\<close> only the shape is read. \<open>True\<close> at
  \<open>(i, j)\<close> means that position \<open>i\<close> may not attend to position \<open>j\<close>.
\<close>

definition get_arc_mask :: "'a tensor2 \<Rightarrow> bool \<Rightarrow> error + bool tensor2" where
  "get_arc_mask input_ids cached =
     (let seq_length = dim1 input_ids;
          full_mask = ones_bool seq_length seq_length;
          nw = triu full_mask 1;
          sw = triu full_mask 0;
          ne = full_mask;
          se = invert (eye seq_length)
      in if cached then cat_dim1 sw se
         else bind (cat_dim1 nw ne) (\<lambda>top.
              bind (cat_dim1 sw se) (\<lambda>bottom.
              cat_dim0 top bottom)))"

text \<open>
  \<open>ArcLmModel._get_arc_position_ids\<close>: \<open>torch.arange(seq_length)\<close>, once when cached
  and twice in a row otherwise.
\<close>

definition get_arc_position_ids :: "'a tensor2 \<Rightarrow> bool \<Rightarrow> int list" where
  "get_arc_position_ids input_ids cached =
     (let seq_length = dim1 input_ids;
          position_ids = map int [0..<seq_length]
      in if cached then position_ids else position_ids @ position_ids)"

section \<open>Slicing, filling and stacking\<close>

text \<open>
  A bound \<open>k\<close> of a Python slice over a dimension of size \<open>n\<close>: a negative bound counts
  from the end, and every bound is clamped into \<open>[0, n]\<close>.
\<close>

definition slice_bound :: "nat \<Rightarrow> int \<Rightarrow> nat" where
  "slice_bound n k = (if k < 0 then nat (k + int n) else min (nat k) n)"

text \<open>The first column and the column after the last of the slice \<open>lo:hi\<close> (step 1).\<close>

definition slice_range :: "nat \<Rightarrow> int option \<Rightarrow> int option \<Rightarrow> nat \<times> nat" where
  "slice_range n lo hi =
     ((case lo of None \<Rightarrow> 0 | Some k \<Rightarrow> slice_bound n k),
      (case hi of None \<Rightarrow> n | Some k \<Rightarrow> slice_bound n k))"

text \<open>Reading \<open>t[:, lo:hi]\<close>.\<close>

definition select_cols :: "'a tensor2 \<Rightarrow> int option \<Rightarrow> int option \<Rightarrow> 'a tensor2" where
  "select_cols t lo hi =
     (case slice_range (dim1 t) lo hi of (start, stop) \<Rightarrow>
        tabulate2 (dim0 t) (stop - start) (\<lambda>i j. at2 t i (start + j)))"

text \<open>
  The assignment \<open>t[:, lo:hi] = src\<close> with a tensor on the right, as a new value of
  \<open>t\<close>. The model accepts a right-hand side of exactly the shape of the slice and
  raises otherwise; torch would also broadcast some other shapes, which the code never
  passes.
\<close>

definition assign_cols ::
  "'a tensor2 \<Rightarrow> int option \<Rightarrow> int option \<Rightarrow> 'a tensor2 \<Rightarrow> error + 'a tensor2" where
  "assign_cols t lo hi src =
     (case slice_range (dim1 t) lo hi of (start, stop) \<Rightarrow>
        if dim0 src \<noteq> dim0 t \<or> dim1 src \<noteq> stop - start then Inl RuntimeError
        else Inr (tabulate2 (dim0 t) (dim1 t)
          (\<lambda>i j. if start \<le> j \<and> j < stop then at2 src i (j - start) else at2 t i j)))"

text \<open>The assignment \<open>t[:, lo:hi] = v\<close> with a scalar on the right.\<close>

definition fill_cols :: "'a tensor2 \<Rightarrow> int option \<Rightarrow> int option \<Rightarrow> 'a \<Rightarrow> 'a tensor2" where
  "fill_cols t lo hi v =
     (case slice_range (dim1 t) lo hi of (start, stop) \<Rightarrow>
        tabulate2 (dim0 t) (dim1 t)
          (\<lambda>i j. if start \<le> j \<and> j < stop then v else at2 t i j))"

text \<open>
  The assignment \<open>t[:, k] = v\<close> with an integer index: an index outside \<open>[-n, n)\<close>
  raises an IndexError, a negative one counts from the end.
\<close>

definition fill_col :: "'a tensor2 \<Rightarrow> int \<Rightarrow> 'a \<Rightarrow> error + 'a tensor2" where
  "fill_col t k v =
     (let n = int (dim1 t)
      in if k < - n \<or> n \<le> k then Inl IndexError
         else (let c = nat (if k < 0 then k + n else k)
               in Inr (tabulate2 (dim0 t) (dim1 t) (\<lambda>i j. if j = c then v else at2 t i j))))"

text \<open>\<open>torch.ones(m, n, dtype=input_ids.dtype)\<close>, a tensor of integers.\<close>

definition ones_int :: "nat \<Rightarrow> nat \<Rightarrow> int tensor2" where
  "ones_int m n = tabulate2 m n (\<lambda>i j. 1)"

text \<open>The comparison \<open>t == v\<close> with a scalar.\<close>

definition eq_scalar :: "'a tensor2 \<Rightarrow> 'a \<Rightarrow> bool tensor2" where
  "eq_scalar t v = tabulate2 (dim0 t) (dim1 t) (\<lambda>i j. at2 t i j = v)"

text \<open>
  \<open>torch.masked_fill(t, cond, v)\<close>, which returns a new tensor. The model accepts a mask
  of the shape of \<open>t\<close> and raises otherwise; torch would also broadcast some other
  shapes, which the code never passes.
\<close>

definition masked_fill :: "'a tensor2 \<Rightarrow> bool tensor2 \<Rightarrow> 'a \<Rightarrow> error + 'a tensor2" where
  "masked_fill t cond v =
     (if dim0 cond \<noteq> dim0 t \<or> dim1 cond \<noteq> dim1 t then Inl RuntimeError
      else Inr (tabulate2 (dim0 t) (dim1 t) (\<lambda>i j. if at2 cond i j then v else at2 t i j)))"

text \<open>A function applied to every entry, as a linear layer or an arithmetic operator is.\<close>

definition map_tensor2 :: "('a \<Rightarrow> 'b) \<Rightarrow> 'a tensor2 \<Rightarrow> 'b tensor2" where
  "map_tensor2 f t = tabulate2 (dim0 t) (dim1 t) (\<lambda>i j. f (at2 t i j))"

text \<open>\<open>torch.stack([a, b], dim=-1)\<close>: both tensors must have the same shape.\<close>

definition stack_last :: "'a tensor2 \<Rightarrow> 'a tensor2 \<Rightarrow> error + 'a tensor3" where
  "stack_last a b =
     (if dim0 a \<noteq> dim0 b \<or> dim1 a \<noteq> dim1 b then Inl RuntimeError
      else Inr (tabulate3 (dim0 a) (dim1 a) 2 (\<lambda>i j k. if k = 0 then at2 a i j else at2 b i j)))"

section \<open>Tensors that are written in place\<close>

text \<open>
  The integer tensors live in a store, since \<open>forward\<close> writes some of them in place and
  \<open>input_ids\<close> belongs to the caller. An address is an index into the store; a new
  tensor goes to the end.
\<close>

type_synonym addr = nat

type_synonym heap = "int tensor2 list"

definition alloc :: "heap \<Rightarrow> int tensor2 \<Rightarrow> addr \<times> heap" where
  "alloc h t = (length h, h @ [t])"

text \<open>\<open>t.clone()\<close>: a new tensor with the contents of \<open>t\<close>.\<close>

definition clone :: "heap \<Rightarrow> addr \<Rightarrow> addr \<times> heap" where
  "clone h a = alloc h (h ! a)"

section \<open>Floating-point scores\<close>

text \<open>
  The arc scores are float32 values, the default dtype of \<open>nn.Linear\<close>. A finite
  value is a sign, a mantissa \<open>m\<close> and an exponent \<open>e\<close> and stands for
  plus or minus \<open>m * 2 ^ e\<close>; beside the finite values there are the two infinities
  and NaN.
  The value is a float32 in normal form when \<open>valid_f32\<close> holds: 24 bits of mantissa,
  the least exponent \<open>-149\<close> (the subnormal numbers and the first binade), the
  greatest \<open>104\<close>.
\<close>

datatype f32 = Finite bool nat int | Infinity bool | NaN

definition valid_f32 :: "f32 \<Rightarrow> bool" where
  "valid_f32 x = (case x of
     Finite s m e \<Rightarrow> m < 2 ^ 24 \<and> - 149 \<le> e \<and> e \<le> 104 \<and> (2 ^ 23 \<le> m \<or> e = - 149)
   | _ \<Rightarrow> True)"

definition is_finite :: "f32 \<Rightarrow> bool" where
  "is_finite x = (case x of Finite s m e \<Rightarrow> True | _ \<Rightarrow> False)"

text \<open>The comparison \<open>x == 0\<close>: both zeros are zero, NaN is not.\<close>

definition is_zero :: "f32 \<Rightarrow> bool" where
  "is_zero x = (case x of Finite s m e \<Rightarrow> m = 0 | _ \<Rightarrow> False)"

text \<open>The operator \<open>-x\<close>, which is exact.\<close>

fun f32_neg :: "f32 \<Rightarrow> f32" where
  "f32_neg (Finite s m e) = Finite (\<not> s) m e"
| "f32_neg (Infinity s) = Infinity (\<not> s)"
| "f32_neg NaN = NaN"

text \<open>Half of a mantissa, rounded to the nearest integer, a tie to the even one.\<close>

definition half_even :: "nat \<Rightarrow> nat" where
  "half_even m = (if even m \<or> even (m div 2) then m div 2 else m div 2 + 1)"

text \<open>
  The division \<open>x / 2\<close>. Above the least exponent it is exact; at the least exponent
  the mantissa is halved and rounded, so that the smallest subnormal number gives zero.
\<close>

fun f32_half :: "f32 \<Rightarrow> f32" where
  "f32_half (Finite s m e) =
     (if - 149 < e then Finite s m (e - 1) else Finite s (half_even m) (- 149))"
| "f32_half (Infinity s) = Infinity s"
| "f32_half NaN = NaN"

text \<open>A finite value as a whole number of units of 2 to the power \<open>-149\<close>.\<close>

definition units :: "bool \<Rightarrow> nat \<Rightarrow> int \<Rightarrow> int" where
  "units s m e = (if s then - 1 else 1) * int m * 2 ^ nat (e + 149)"

text \<open>The number of binary digits of a natural number.\<close>

fun bits :: "nat \<Rightarrow> nat" where
  "bits n = (if n = 0 then 0 else Suc (bits (n div 2)))"

text \<open>
  The float32 nearest to \<open>N\<close> units, a tie going to the even mantissa, and infinity
  past the greatest exponent.
\<close>

definition round_units :: "bool \<Rightarrow> nat \<Rightarrow> f32" where
  "round_units s N =
     (if N < 2 ^ 24 then Finite s N (- 149)
      else (let k = bits N - 24;
                q = N div 2 ^ k;
                r = N mod 2 ^ k;
                up = (2 ^ (k - 1) < r \<or> (r = 2 ^ (k - 1) \<and> odd q));
                q' = (if up then q + 1 else q);
                m = (if q' = 2 ^ 24 then 2 ^ 23 else q');
                e = (if q' = 2 ^ 24 then int k + 1 else int k) - 149
            in if 104 < e then Infinity s else Finite s m e))"

text \<open>
  The sum \<open>x + y\<close>, by which the scores of one position are compared with zero: NaN
  with a NaN operand or with two opposite infinities, otherwise the exact sum rounded.
\<close>

fun f32_add :: "f32 \<Rightarrow> f32 \<Rightarrow> f32" where
  "f32_add NaN y = NaN"
| "f32_add x NaN = NaN"
| "f32_add (Infinity s) (Infinity t) = (if s = t then Infinity s else NaN)"
| "f32_add (Infinity s) (Finite t n f) = Infinity s"
| "f32_add (Finite s m e) (Infinity t) = Infinity t"
| "f32_add (Finite s m e) (Finite t n f) =
     (let N = units s m e + units t n f
      in if N = 0 then Finite (s \<and> t) 0 (- 149) else round_units (N < 0) (nat \<bar>N\<bar>))"

section \<open>The model and its forward pass\<close>

text \<open>
  What \<open>ArcLmModel\<close> is built from. The transformer \<open>BaseTransformer\<close> lives in
  \<open>models/base.py\<close>, which is not among the sources, and the heads are learned linear
  layers over floating-point vectors, so all of them are parameters:
  \<^item> \<open>model\<close> is the transformer, called with the token ids, an optional attention mask,
    optional position ids and the key/value cache; it returns the hidden states, one per
    position, and the cache it has extended (the source mutates the cache in place), or
    it raises;
  \<^item> \<open>lm_head\<close> and \<open>log_softmax\<close> act on the last dimension, that is on the hidden
    state of one position;
  \<^item> \<open>arc_head\<close> is \<open>nn.Linear(hidden_size, 1, bias=False)\<close> followed by \<open>[:, :, 0]\<close>:
    one float32 score per position, which may be infinite or NaN;
  \<^item> \<open>categorical_sample\<close> is the outcome of \<open>Categorical(logits=lm_logits).sample()\<close>
    at one position, a function of the logits that stands for the random draw; the
    sample has the shape of the logits without their last dimension;
  \<^item> \<open>dynamic_cache\<close> is the empty \<open>DynamicCache()\<close>.
\<close>

record ('h, 'lg, 'kv) arc_lm_model =
  model :: "int tensor2 \<Rightarrow> bool tensor2 option \<Rightarrow> int list option \<Rightarrow> 'kv \<Rightarrow> error + 'h tensor2 \<times> 'kv"
  lm_head :: "'h \<Rightarrow> 'lg"
  arc_head :: "'h \<Rightarrow> f32"
  log_softmax :: "'lg \<Rightarrow> 'lg"
  categorical_sample :: "'lg tensor2 \<Rightarrow> nat \<Rightarrow> nat \<Rightarrow> int"
  dynamic_cache :: "'kv"

text \<open>
  Modelled from the spec: \<open>BaseTransformer\<close> is missing from the sources; the spec gives
  its interface as \<open>run(ids, mask, position_ids, cache)\<close> returning hidden states
  \<open>[batch, len, hidden]\<close>. A transformer keeps the shape when every call that returns
  gives hidden states for exactly the positions of its input.
\<close>

definition keeps_shape ::
  "(int tensor2 \<Rightarrow> bool tensor2 option \<Rightarrow> int list option \<Rightarrow> 'kv \<Rightarrow> error + 'h tensor2 \<times> 'kv) \<Rightarrow> bool" where
  "keeps_shape run = (\<forall>ids msk pos kv hidden kv'.
     run ids msk pos kv = Inr (hidden, kv') \<longrightarrow> dim0 hidden = dim0 ids \<and> dim1 hidden = dim1 ids)"

text \<open>
  Lines 110 to 115 of \<open>forward\<close>, the negative samples. The sample is a new tensor. In
  debug mode \<open>neg_ids\<close> is rebound to a clone of \<open>input_ids\<close> and
  \<open>neg_ids[:, :-1] = input_ids[:, 1:]\<close> writes into the clone.
\<close>

definition negative_samples ::
  "('h, 'lg, 'kv) arc_lm_model \<Rightarrow> heap \<Rightarrow> addr \<Rightarrow> 'lg tensor2 \<Rightarrow> bool \<Rightarrow> error + addr \<times> heap" where
  "negative_samples M h input_ids lm_logits debug =
     (case alloc h (tabulate2 (dim0 lm_logits) (dim1 lm_logits) (categorical_sample M lm_logits)) of
        (neg_ids, h) \<Rightarrow>
          if debug then
            (case clone h input_ids of (neg_ids, h) \<Rightarrow>
               bind (assign_cols (h ! neg_ids) None (Some (- 1))
                       (select_cols (h ! input_ids) (Some 1) None))
                 (\<lambda>t. Inr (neg_ids, h[neg_ids := t])))
          else Inr (neg_ids, h))"

text \<open>
  Lines 151 to 162 of \<open>forward\<close>, the targets. \<open>arc_targets\<close> is a new tensor, written
  in place three times; \<open>masked_fill\<close> then returns another tensor.
\<close>

definition get_arc_targets ::
  "heap \<Rightarrow> addr \<Rightarrow> nat \<Rightarrow> nat \<Rightarrow> int \<Rightarrow> error + int tensor2 \<times> heap" where
  "get_arc_targets h input_ids batch_size seq_length pad_token_id =
     (case alloc h (ones_int batch_size (2 * seq_length)) of (arc_targets, h) \<Rightarrow>
        (let h = h[arc_targets := fill_cols (h ! arc_targets) None (Some (int seq_length)) 0]
         in bind (fill_col (h ! arc_targets) 0 (- 1)) (\<lambda>t.
            let h = h[arc_targets := t]
            in bind (fill_col (h ! arc_targets) (int seq_length) (- 1)) (\<lambda>t.
               let h = h[arc_targets := t]
               in bind (cat_dim1 (h ! input_ids) (h ! input_ids)) (\<lambda>doubled.
                  bind (masked_fill (h ! arc_targets) (eq_scalar doubled pad_token_id) (- 1))
                    (\<lambda>arc_targets. Inr (arc_targets, h)))))))"

text \<open>The local variables of \<open>forward\<close> at its return, and the store it leaves.\<close>

record ('h, 'lg, 'kv) locals =
  out :: "'h tensor2"
  lm_logits :: "'lg tensor2"
  neg_ids :: addr
  arc_ids :: "int tensor2"
  arc_mask :: "bool tensor2"
  arc_position_ids :: "int list"
  arc_out :: "'h tensor2"
  arc_states :: "'h tensor2"
  arc_scores :: "f32 tensor2"
  arc_preds :: "f32 tensor3"
  arc_targets :: "int tensor2"
  kv :: "'kv"
  heap :: heap

text \<open>
  \<open>ArcLmModel.forward\<close>, with \<open>input_ids\<close> the address of the caller's tensor.
  \<open>arc_scores\<close> is the value of \<open>arc_preds\<close> after line 145, before the stacking
  rebinds the name.
\<close>

definition forward_locals ::
  "('h, 'lg, 'kv) arc_lm_model \<Rightarrow> heap \<Rightarrow> addr \<Rightarrow> int \<Rightarrow> bool \<Rightarrow> error + ('h, 'lg, 'kv) locals" where
  "forward_locals M h0 input_ids pad_token_id debug =
     (let batch_size = dim0 (h0 ! input_ids);
          seq_length = dim1 (h0 ! input_ids);
          kv0 = dynamic_cache M
      in bind (model M (h0 ! input_ids) None None kv0) (\<lambda>(out, kv1).
         let lm_logits = map_tensor2 (log_softmax M) (map_tensor2 (lm_head M) out)
         in bind (negative_samples M h0 input_ids lm_logits debug) (\<lambda>(neg_ids, h1).
            bind (cat_dim1 (select_cols (h1 ! input_ids) None (Some 1))
                           (select_cols (h1 ! neg_ids) None (Some (- 1)))) (\<lambda>arc_ids.
            bind (get_arc_mask (h1 ! input_ids) True) (\<lambda>arc_mask.
            let arc_position_ids = get_arc_position_ids (h1 ! input_ids) True
            in bind (model M arc_ids (Some arc_mask) (Some arc_position_ids) kv1) (\<lambda>(arc_out, kv2).
               bind (cat_dim1 out arc_out) (\<lambda>arc_states.
               let arc_scores = map_tensor2 (arc_head M) arc_states
               in bind (stack_last (map_tensor2 (\<lambda>s. f32_half (f32_neg s)) arc_scores)
                                   (map_tensor2 (\<lambda>s. f32_half s) arc_scores)) (\<lambda>arc_preds.
                  bind (get_arc_targets h1 input_ids batch_size seq_length pad_token_id)
                    (\<lambda>(arc_targets, h2).
                       Inr \<lparr>out = out, lm_logits = lm_logits, neg_ids = neg_ids,
                            arc_ids = arc_ids, arc_mask = arc_mask,
                            arc_position_ids = arc_position_ids, arc_out = arc_out,
                            arc_states = arc_states, arc_scores = arc_scores,
                            arc_preds = arc_preds, arc_targets = arc_targets,
                            kv = kv2, heap = h2\<rparr>)))))))))"

text \<open>What \<open>forward\<close> returns, beside the store: the tuple of line 164.\<close>

definition forward ::
  "('h, 'lg, 'kv) arc_lm_model \<Rightarrow> heap \<Rightarrow> addr \<Rightarrow> int \<Rightarrow> bool \<Rightarrow>
     error + ('lg tensor2 \<times> f32 tensor3 \<times> int tensor2) \<times> heap" where
  "forward M h input_ids pad_token_id debug =
     bind (forward_locals M h input_ids pad_token_id debug)
       (\<lambda>l. Inr ((lm_logits l, arc_preds l, arc_targets l), heap l))"

section \<open>An example run\<close>

text \<open>
  A stand-in transformer whose hidden state at a position is the token id there and whose
  cache counts the positions it has seen, a vocabulary head that reads that number, an arc
  head that scores token \<open>t\<close> with the subnormal float of mantissa \<open>t\<close>, and a sampler
  that draws token \<open>10 + j\<close> at column \<open>j\<close>.
\<close>

definition example_model :: "(int, int, nat) arc_lm_model" where
  "example_model =
     \<lparr>model = (\<lambda>ids msk pos kv. Inr (map_tensor2 (\<lambda>x. x) ids, kv + dim1 ids)),
      lm_head = (\<lambda>x. x),
      arc_head = (\<lambda>x. Finite False (nat x) (- 149)),
      log_softmax = (\<lambda>x. x),
      categorical_sample = (\<lambda>lg i j. 10 + int j),
      dynamic_cache = 0\<rparr>"

text \<open>The batch of the spec's end-to-end example: one row \<open>[5, 6, 7, 0]\<close>, pad id 0.\<close>

definition example_input :: "int tensor2" where
  "example_input = \<lparr>dim0 = 1, dim1 = 4, rows = [[5, 6, 7, 0]]\<rparr>"

text \<open>The caller's store holds that batch at address 0.\<close>

definition example_heap :: heap where
  "example_heap = [example_input]"

text \<open>
  The local variables at the return of \<open>forward\<close> on the example with pad id 0 and
  \<open>debug=False\<close>: the sample \<open>[10, 11, 12, 13]\<close> sits at address 1, the targets before
  \<open>masked_fill\<close> at address 2.
\<close>

definition example_sampled :: "(int, int, nat) locals" where
  "example_sampled =
     \<lparr>out = \<lparr>dim0 = 1, dim1 = 4, rows = [[5, 6, 7, 0]]\<rparr>,
      lm_logits = \<lparr>dim0 = 1, dim1 = 4, rows = [[5, 6, 7, 0]]\<rparr>,
      neg_ids = 1,
      arc_ids = \<lparr>dim0 = 1, dim1 = 4, rows = [[5, 10, 11, 12]]\<rparr>,
      arc_mask =
        \<lparr>dim0 = 4, dim1 = 8,
         rows =
           [[True, True, True, True, False, True, True, True],
            [False, True, True, True, True, False, True, True],
            [False, False, True, True, True, True, False, True],
            [False, False, False, True, True, True, True, False]]\<rparr>,
      arc_position_ids = [0, 1, 2, 3],
      arc_out = \<lparr>dim0 = 1, dim1 = 4, rows = [[5, 10, 11, 12]]\<rparr>,
      arc_states = \<lparr>dim0 = 1, dim1 = 8, rows = [[5, 6, 7, 0, 5, 10, 11, 12]]\<rparr>,
      arc_scores =
        \<lparr>dim0 = 1, dim1 = 8,
         rows =
           [[Finite False 5 (- 149),
            Finite False 6 (- 149),
            Finite False 7 (- 149),
            Finite False 0 (- 149),
            Finite False 5 (- 149),
            Finite False 10 (- 149),
            Finite False 11 (- 149),
            Finite False 12 (- 149)]]\<rparr>,
      arc_preds =
        \<lparr>size0 = 1, size1 = 8, size2 = 2,
         planes =
           [[[Finite True 2 (- 149), Finite False 2 (- 149)],
             [Finite True 3 (- 149), Finite False 3 (- 149)],
             [Finite True 4 (- 149), Finite False 4 (- 149)],
             [Finite True 0 (- 149), Finite False 0 (- 149)],
             [Finite True 2 (- 149), Finite False 2 (- 149)],
             [Finite True 5 (- 149), Finite False 5 (- 149)],
             [Finite True 6 (- 149), Finite False 6 (- 149)],
             [Finite True 6 (- 149), Finite False 6 (- 149)]]]\<rparr>,
      arc_targets = \<lparr>dim0 = 1, dim1 = 8, rows = [[- 1, 0, 0, - 1, - 1, 1, 1, - 1]]\<rparr>,
      kv = 8,
      heap =
        [\<lparr>dim0 = 1, dim1 = 4, rows = [[5, 6, 7, 0]]\<rparr>,
         \<lparr>dim0 = 1, dim1 = 4, rows = [[10, 11, 12, 13]]\<rparr>,
         \<lparr>dim0 = 1, dim1 = 8, rows = [[- 1, 0, 0, 0, - 1, 1, 1, 1]]\<rparr>]\<rparr>"

text \<open>The same run with pad id 3, which no token of the batch equals.\<close>

definition example_nopad :: "(int, int, nat) locals" where
  "example_nopad =
     example_sampled
       \<lparr>arc_targets := \<lparr>dim0 = 1, dim1 = 8, rows = [[- 1, 0, 0, 0, - 1, 1, 1, 1]]\<rparr>\<rparr>"

text \<open>
  The run with pad id 0 and \<open>debug=True\<close>: the sample is still drawn (address 1), the
  clone of \<open>input_ids\<close>, shifted left, sits at address 2.
\<close>

definition example_debug :: "(int, int, nat) locals" where
  "example_debug =
     \<lparr>out = \<lparr>dim0 = 1, dim1 = 4, rows = [[5, 6, 7, 0]]\<rparr>,
      lm_logits = \<lparr>dim0 = 1, dim1 = 4, rows = [[5, 6, 7, 0]]\<rparr>,
      neg_ids = 2,
      arc_ids = \<lparr>dim0 = 1, dim1 = 4, rows = [[5, 6, 7, 0]]\<rparr>,
      arc_mask =
        \<lparr>dim0 = 4, dim1 = 8,
         rows =
           [[True, True, True, True, False, True, True, True],
            [False, True, True, True, True, False, True, True],
            [False, False, True, True, True, True, False, True],
            [False, False, False, True, True, True, True, False]]\<rparr>,
      arc_position_ids = [0, 1, 2, 3],
      arc_out = \<lparr>dim0 = 1, dim1 = 4, rows = [[5, 6, 7, 0]]\<rparr>,
      arc_states = \<lparr>dim0 = 1, dim1 = 8, rows = [[5, 6, 7, 0, 5, 6, 7, 0]]\<rparr>,
      arc_scores =
        \<lparr>dim0 = 1, dim1 = 8,
         rows =
           [[Finite False 5 (- 149),
            Finite False 6 (- 149),
            Finite False 7 (- 149),
            Finite False 0 (- 149),
            Finite False 5 (- 149),
            Finite False 6 (- 149),
            Finite False 7 (- 149),
            Finite False 0 (- 149)]]\<rparr>,
      arc_preds =
        \<lparr>size0 = 1, size1 = 8, size2 = 2,
         planes =
           [[[Finite True 2 (- 149), Finite False 2 (- 149)],
             [Finite True 3 (- 149), Finite False 3 (- 149)],
             [Finite True 4 (- 149), Finite False 4 (- 149)],
             [Finite True 0 (- 149), Finite False 0 (- 149)],
             [Finite True 2 (- 149), Finite False 2 (- 149)],
             [Finite True 3 (- 149), Finite False 3 (- 149)],
             [Finite True 4 (- 149), Finite False 4 (- 149)],
             [Finite True 0 (- 149), Finite False 0 (- 149)]]]\<rparr>,
      arc_targets = \<lparr>dim0 = 1, dim1 = 8, rows = [[- 1, 0, 0, - 1, - 1, 1, 1, - 1]]\<rparr>,
      kv = 8,
      heap =
        [\<lparr>dim0 = 1, dim1 = 4, rows = [[5, 6, 7, 0]]\<rparr>,
         \<lparr>dim0 = 1, dim1 = 4, rows = [[10, 11, 12, 13]]\<rparr>,
         \<lparr>dim0 = 1, dim1 = 4, rows = [[6, 7, 0, 0]]\<rparr>,
         \<lparr>dim0 = 1, dim1 = 8, rows = [[- 1, 0, 0, 0, - 1, 1, 1, 1]]\<rparr>]\<rparr>"

text \<open>
  A second call with \<open>debug=True\<close> on the same batch, held at address 1 of a store
  that has another tensor before it, and with pad id 3.
\<close>

definition example_rerun :: "(int, int, nat) locals" where
  "example_rerun =
     example_debug
       \<lparr>neg_ids := 3,
        arc_targets := \<lparr>dim0 = 1, dim1 = 8, rows = [[- 1, 0, 0, 0, - 1, 1, 1, 1]]\<rparr>,
        heap :=
          [\<lparr>dim0 = 1, dim1 = 4, rows = [[5, 6, 7, 0]]\<rparr>,
           \<lparr>dim0 = 1, dim1 = 4, rows = [[5, 6, 7, 0]]\<rparr>,
           \<lparr>dim0 = 1, dim1 = 4, rows = [[10, 11, 12, 13]]\<rparr>,
           \<lparr>dim0 = 1, dim1 = 4, rows = [[6, 7, 0, 0]]\<rparr>,
           \<lparr>dim0 = 1, dim1 = 8, rows = [[- 1, 0, 0, 0, - 1, 1, 1, 1]]\<rparr>]\<rparr>"

text \<open>
  The first run again with an arc head that has overflowed: every score is
  \<open>+inf\<close>.
\<close>

definition overflow_model :: "(int, int, nat) arc_lm_model" where
  "overflow_model = example_model\<lparr>arc_head := (\<lambda>x. Infinity False)\<rparr>"

definition example_overflow :: "(int, int, nat) locals" where
  "example_overflow =
     example_sampled
       \<lparr>arc_scores :=
          \<lparr>dim0 = 1, dim1 = 8,
           rows =
             [[Infinity False, Infinity False, Infinity False, Infinity False,
               Infinity False, Infinity False, Infinity False, Infinity False]]\<rparr>,
        arc_preds :=
          \<lparr>size0 = 1, size1 = 8, size2 = 2,
           planes =
             [[[Infinity True, Infinity False], [Infinity True, Infinity False],
               [Infinity True, Infinity False], [Infinity True, Infinity False],
               [Infinity True, Infinity False], [Infinity True, Infinity False],
               [Infinity True, Infinity False], [Infinity True, Infinity False]]]\<rparr>\<rparr>"

section \<open>Properties of the float operations\<close>

lemma units_neg: "units (\<not> s) m e = - units s m e"
  by (simp add: units_def)

lemma f32_half_neg: "f32_half (f32_neg x) = f32_neg (f32_half x)"
  by (cases x) simp_all

lemma f32_add_neg_half:
  "f32_add (f32_neg (f32_half x)) (f32_half x) =
     (if is_finite x then Finite False 0 (- 149) else NaN)"
  by (cases x) (simp_all add: is_finite_def units_neg)

lemma half_even_less: "m < 16777216 \<Longrightarrow> half_even m < 16777216"
  unfolding half_even_def by (simp split: if_splits) linarith

text \<open>Negation and halving stay inside float32.\<close>

lemma valid_f32_neg: "valid_f32 x \<Longrightarrow> valid_f32 (f32_neg x)"
  by (cases x) (simp_all add: valid_f32_def)

lemma valid_f32_half: "valid_f32 x \<Longrightarrow> valid_f32 (f32_half x)"
  by (cases x) (auto simp: valid_f32_def half_even_less)

text \<open>
  Halving the smallest subnormal number gives zero, and a tie goes to the even
  mantissa.
\<close>

lemma f32_half_smallest: "f32_half (Finite s 1 (- 149)) = Finite s 0 (- 149)"
  by (simp add: half_even_def)

lemma f32_half_tie: "f32_half (Finite s 3 (- 149)) = Finite s 2 (- 149)"
  by (simp add: half_even_def)

section \<open>Properties of the tensor operations\<close>

lemma dim0_tabulate2 [simp]: "dim0 (tabulate2 m n f) = m"
  by (simp add: tabulate2_def)

lemma dim1_tabulate2 [simp]: "dim1 (tabulate2 m n f) = n"
  by (simp add: tabulate2_def)

lemma at2_tabulate2 [simp]: "i < m \<Longrightarrow> j < n \<Longrightarrow> at2 (tabulate2 m n f) i j = f i j"
  by (simp add: tabulate2_def at2_def)

lemma wf2_tabulate2 [simp]: "wf2 (tabulate2 m n f)"
  by (simp add: tabulate2_def wf2_def list_all_iff)

lemma get_arc_mask_cached:
  "get_arc_mask x True = Inr (tabulate2 (dim1 x) (dim1 x + dim1 x)
     (\<lambda>i j. if j < dim1 x then i \<le> j else i \<noteq> j - dim1 x))"
  by (simp add: get_arc_mask_def Let_def cat_dim1_def ones_bool_def triu_def eye_def invert_def
      tabulate2_def at2_def)

lemma size_tabulate3 [simp]:
  "size0 (tabulate3 m n q f) = m" "size1 (tabulate3 m n q f) = n" "size2 (tabulate3 m n q f) = q"
  by (simp_all add: tabulate3_def)

lemma at3_tabulate3 [simp]:
  "i < m \<Longrightarrow> j < n \<Longrightarrow> k < q \<Longrightarrow> at3 (tabulate3 m n q f) i j k = f i j k"
  by (simp add: tabulate3_def at3_def)

lemma wf3_tabulate3 [simp]: "wf3 (tabulate3 m n q f)"
  by (simp add: tabulate3_def wf3_def list_all_iff)

lemma tabulate2_cong:
  "(\<And>i j. i < m \<Longrightarrow> j < n \<Longrightarrow> f i j = g i j) \<Longrightarrow> tabulate2 m n f = tabulate2 m n g"
  by (simp add: tabulate2_def)

lemma wf2_eq_tabulate2: "wf2 t \<Longrightarrow> t = tabulate2 (dim0 t) (dim1 t) (at2 t)"
proof -
  assume w: "wf2 t"
  have len: "length (rows t) = dim0 t" using w by (simp add: wf2_def)
  have row: "\<And>i. i < dim0 t \<Longrightarrow> length (rows t ! i) = dim1 t"
    using w by (simp add: wf2_def list_all_length)
  have "rows t = map (\<lambda>i. map (\<lambda>j. rows t ! i ! j) [0..<dim1 t]) [0..<dim0 t]"
  proof (rule nth_equalityI)
    show "length (rows t) = length (map (\<lambda>i. map (\<lambda>j. rows t ! i ! j) [0..<dim1 t]) [0..<dim0 t])"
      by (simp add: len)
  next
    fix i assume "i < length (rows t)"
    then have i: "i < dim0 t" by (simp add: len)
    have "rows t ! i = map (\<lambda>j. rows t ! i ! j) [0..<dim1 t]"
      by (rule nth_equalityI) (simp_all add: row [OF i])
    then show "rows t ! i = map (\<lambda>i. map (\<lambda>j. rows t ! i ! j) [0..<dim1 t]) [0..<dim0 t] ! i"
      using i by simp
  qed
  then show ?thesis
    by (simp add: tabulate2_def at2_def)
qed

lemma bind_Inr_iff: "bind m f = Inr y \<longleftrightarrow> (\<exists>x. m = Inr x \<and> f x = Inr y)"
  by (cases m) (simp_all add: bind_def)

lemma get_arc_mask_uncached:
  "get_arc_mask x False = Inr (tabulate2 (dim1 x + dim1 x) (dim1 x + dim1 x)
     (\<lambda>i j. if i < dim1 x then (if j < dim1 x then i < j else True)
             else (if j < dim1 x then i - dim1 x \<le> j else i - dim1 x \<noteq> j - dim1 x)))"
  apply (simp add: get_arc_mask_def Let_def cat_dim1_def cat_dim0_def bind_def ones_bool_def triu_def eye_def invert_def)
  apply (rule tabulate2_cong)
  apply auto
  done


lemma negative_samples_sampled:
  "negative_samples M h a lg False =
     Inr (length h, h @ [tabulate2 (dim0 lg) (dim1 lg) (categorical_sample M lg)])"
  by (simp add: negative_samples_def alloc_def)

lemma slice_range_to_last: "slice_range n None (Some (- 1)) = (0, n - 1)"
  by (auto simp: slice_range_def slice_bound_def)

lemma slice_range_from_1: "slice_range n (Some 1) None = (min 1 n, n)"
  by (simp add: slice_range_def slice_bound_def)

lemma slice_range_to_1: "slice_range n None (Some 1) = (0, min 1 n)"
  by (simp add: slice_range_def slice_bound_def)

lemma slice_range_to_nat: "slice_range n None (Some (int k)) = (0, min k n)"
  by (simp add: slice_range_def slice_bound_def)

lemma negative_samples_debug:
  assumes "a < length h"
  shows "negative_samples M h a lg True =
     Inr (Suc (length h),
          h @ [tabulate2 (dim0 lg) (dim1 lg) (categorical_sample M lg),
               tabulate2 (dim0 (h ! a)) (dim1 (h ! a))
                 (\<lambda>i j. if Suc j < dim1 (h ! a) then at2 (h ! a) i (Suc j) else at2 (h ! a) i j)])"
proof -
  let ?x = "h ! a"
  let ?s = "tabulate2 (dim0 lg) (dim1 lg) (categorical_sample M lg)"
  have sel: "select_cols ?x (Some 1) None =
      tabulate2 (dim0 ?x) (dim1 ?x - min 1 (dim1 ?x)) (\<lambda>i j. at2 ?x i (min 1 (dim1 ?x) + j))"
    by (simp add: select_cols_def slice_range_from_1)
  have asg: "assign_cols ?x None (Some (- 1)) (select_cols ?x (Some 1) None) =
      Inr (tabulate2 (dim0 ?x) (dim1 ?x)
        (\<lambda>i j. if Suc j < dim1 ?x then at2 ?x i (Suc j) else at2 ?x i j))"
    unfolding sel assign_cols_def slice_range_to_last
    by (auto intro!: tabulate2_cong)
  show ?thesis
    using assms
    by (simp add: negative_samples_def alloc_def clone_def nth_append asg bind_def
        list_update_append)
qed


lemma fill_cols_to_nat:
  "fill_cols t None (Some (int k)) v =
     tabulate2 (dim0 t) (dim1 t) (\<lambda>i j. if j < min k (dim1 t) then v else at2 t i j)"
  by (simp add: fill_cols_def slice_range_to_nat)

lemma fill_col_nat:
  "fill_col t (int k) v =
     (if dim1 t \<le> k then Inl IndexError
      else Inr (tabulate2 (dim0 t) (dim1 t) (\<lambda>i j. if j = k then v else at2 t i j)))"
  by (simp add: fill_col_def Let_def)

lemma fill_col_0:
  "fill_col t 0 v =
     (if dim1 t = 0 then Inl IndexError
      else Inr (tabulate2 (dim0 t) (dim1 t) (\<lambda>i j. if j = 0 then v else at2 t i j)))"
  using fill_col_nat [of t 0 v] by simp

lemma get_arc_targets_empty: "get_arc_targets h a B 0 pad = Inl IndexError"
  by (simp add: get_arc_targets_def alloc_def fill_col_0 fill_cols_def bind_def Let_def
      ones_int_def split: prod.splits)

lemma get_arc_targets_result:
  assumes a: "a < length h" and B: "dim0 (h ! a) = B" and L: "dim1 (h ! a) = L" and pos: "0 < L"
  shows "get_arc_targets h a B L pad =
     Inr (tabulate2 B (2 * L)
            (\<lambda>i p. if p = 0 \<or> p = L \<or> at2 (h ! a) i (if p < L then p else p - L) = pad
                    then - 1 else if p < L then 0 else 1),
          h @ [tabulate2 B (2 * L)
            (\<lambda>i p. if p = 0 \<or> p = L then - 1 else if p < L then 0 else 1)])"
proof -
  let ?x = "h ! a"
  let ?t1 = "tabulate2 B (2 * L) (\<lambda>i p. if p < L then 0 else (1::int))"
  let ?t2 = "tabulate2 B (2 * L) (\<lambda>i p. if p = 0 then - 1 else if p < L then 0 else (1::int))"
  let ?t3 = "tabulate2 B (2 * L)
     (\<lambda>i p. if p = 0 \<or> p = L then - 1 else if p < L then 0 else (1::int))"
  have s1: "fill_cols (ones_int B (2 * L)) None (Some (int L)) 0 = ?t1"
    unfolding fill_cols_to_nat ones_int_def by (auto intro!: tabulate2_cong)
  have s2: "fill_col ?t1 0 (- 1) = Inr ?t2"
    unfolding fill_col_0 using pos by (auto intro!: tabulate2_cong)
  have s3: "fill_col ?t2 (int L) (- 1) = Inr ?t3"
    unfolding fill_col_nat using pos by (auto intro!: tabulate2_cong)
  have s4: "cat_dim1 ?x ?x =
      Inr (tabulate2 B (L + L) (\<lambda>i j. if j < L then at2 ?x i j else at2 ?x i (j - L)))"
    unfolding cat_dim1_def B L by simp
  have s5: "masked_fill ?t3
      (eq_scalar (tabulate2 B (L + L) (\<lambda>i j. if j < L then at2 ?x i j else at2 ?x i (j - L))) pad)
      (- 1) =
      Inr (tabulate2 B (2 * L)
            (\<lambda>i p. if p = 0 \<or> p = L \<or> at2 ?x i (if p < L then p else p - L) = pad
                    then - 1 else if p < L then 0 else 1))"
    unfolding masked_fill_def eq_scalar_def by (auto intro!: tabulate2_cong)
  show ?thesis
    using a
    by (simp add: get_arc_targets_def alloc_def Let_def s1 s2 s3 s4 s5 bind_def nth_append
        list_update_append)
qed


lemma forward_locals_cases:
  assumes "forward_locals M h a pad dbg = Inr l"
  obtains kv1 h1 where
    "model M (h ! a) None None (dynamic_cache M) = Inr (out l, kv1)"
    "lm_logits l = map_tensor2 (log_softmax M) (map_tensor2 (lm_head M) (out l))"
    "negative_samples M h a (lm_logits l) dbg = Inr (neg_ids l, h1)"
    "cat_dim1 (select_cols (h1 ! a) None (Some 1))
              (select_cols (h1 ! neg_ids l) None (Some (- 1))) = Inr (arc_ids l)"
    "get_arc_mask (h1 ! a) True = Inr (arc_mask l)"
    "arc_position_ids l = get_arc_position_ids (h1 ! a) True"
    "model M (arc_ids l) (Some (arc_mask l)) (Some (arc_position_ids l)) kv1 = Inr (arc_out l, kv l)"
    "cat_dim1 (out l) (arc_out l) = Inr (arc_states l)"
    "arc_scores l = map_tensor2 (arc_head M) (arc_states l)"
    "stack_last (map_tensor2 (\<lambda>s. f32_half (f32_neg s)) (arc_scores l))
                (map_tensor2 (\<lambda>s. f32_half s) (arc_scores l)) = Inr (arc_preds l)"
    "get_arc_targets h1 a (dim0 (h ! a)) (dim1 (h ! a)) pad = Inr (arc_targets l, heap l)"
  using assms
  by (auto simp: forward_locals_def Let_def bind_Inr_iff split: prod.splits)


lemma forward_locals_nonempty:
  assumes "forward_locals M h a pad dbg = Inr l"
  shows "0 < dim1 (h ! a)"
proof (rule ccontr)
  assume "\<not> 0 < dim1 (h ! a)"
  then have "dim1 (h ! a) = 0" by simp
  with assms show False
    by (elim forward_locals_cases) (simp add: get_arc_targets_empty)
qed

lemma forward_locals_heap:
  assumes run: "forward_locals M h a pad dbg = Inr l" and a: "a < length h"
  shows "neg_ids l = (if dbg then Suc (length h) else length h)"
    and "heap l =
      h @ (if dbg
           then [tabulate2 (dim0 (lm_logits l)) (dim1 (lm_logits l)) (categorical_sample M (lm_logits l)),
                 tabulate2 (dim0 (h ! a)) (dim1 (h ! a))
                   (\<lambda>i j. if Suc j < dim1 (h ! a) then at2 (h ! a) i (Suc j) else at2 (h ! a) i j)]
           else [tabulate2 (dim0 (lm_logits l)) (dim1 (lm_logits l)) (categorical_sample M (lm_logits l))])
        @ [tabulate2 (dim0 (h ! a)) (2 * dim1 (h ! a))
            (\<lambda>i p. if p = 0 \<or> p = dim1 (h ! a) then - 1 else if p < dim1 (h ! a) then 0 else 1)]"
    and "arc_targets l = tabulate2 (dim0 (h ! a)) (2 * dim1 (h ! a))
            (\<lambda>i p. if p = 0 \<or> p = dim1 (h ! a) \<or>
                       at2 (h ! a) i (if p < dim1 (h ! a) then p else p - dim1 (h ! a)) = pad
                    then - 1 else if p < dim1 (h ! a) then 0 else 1)"
    and "cat_dim1 (select_cols (h ! a) None (Some 1))
           (select_cols (heap l ! neg_ids l) None (Some (- 1))) = Inr (arc_ids l)"
proof -
  have pos: "0 < dim1 (h ! a)" using run by (rule forward_locals_nonempty)
  from run obtain h1 where
    neg: "negative_samples M h a (lm_logits l) dbg = Inr (neg_ids l, h1)" and
    ids: "cat_dim1 (select_cols (h1 ! a) None (Some 1))
              (select_cols (h1 ! neg_ids l) None (Some (- 1))) = Inr (arc_ids l)" and
    tgt: "get_arc_targets h1 a (dim0 (h ! a)) (dim1 (h ! a)) pad = Inr (arc_targets l, heap l)"
    by (elim forward_locals_cases)
  have h1: "h1 = h @ (if dbg
           then [tabulate2 (dim0 (lm_logits l)) (dim1 (lm_logits l)) (categorical_sample M (lm_logits l)),
                 tabulate2 (dim0 (h ! a)) (dim1 (h ! a))
                   (\<lambda>i j. if Suc j < dim1 (h ! a) then at2 (h ! a) i (Suc j) else at2 (h ! a) i j)]
           else [tabulate2 (dim0 (lm_logits l)) (dim1 (lm_logits l)) (categorical_sample M (lm_logits l))])"
    and n: "neg_ids l = (if dbg then Suc (length h) else length h)"
    using neg a by (cases dbg; simp add: negative_samples_debug negative_samples_sampled)+
  show "neg_ids l = (if dbg then Suc (length h) else length h)" by (rule n)
  have a1: "a < length h1" and same: "h1 ! a = h ! a"
    using a by (simp_all add: h1 nth_append)
  have res: "get_arc_targets h1 a (dim0 (h ! a)) (dim1 (h ! a)) pad =
     Inr (tabulate2 (dim0 (h ! a)) (2 * dim1 (h ! a))
            (\<lambda>i p. if p = 0 \<or> p = dim1 (h ! a) \<or>
                       at2 (h1 ! a) i (if p < dim1 (h ! a) then p else p - dim1 (h ! a)) = pad
                    then - 1 else if p < dim1 (h ! a) then 0 else 1),
          h1 @ [tabulate2 (dim0 (h ! a)) (2 * dim1 (h ! a))
            (\<lambda>i p. if p = 0 \<or> p = dim1 (h ! a) then - 1 else if p < dim1 (h ! a) then 0 else 1)])"
    by (rule get_arc_targets_result [OF a1 _ _ pos]) (simp_all add: same)
  from tgt res show "arc_targets l = tabulate2 (dim0 (h ! a)) (2 * dim1 (h ! a))
            (\<lambda>i p. if p = 0 \<or> p = dim1 (h ! a) \<or>
                       at2 (h ! a) i (if p < dim1 (h ! a) then p else p - dim1 (h ! a)) = pad
                    then - 1 else if p < dim1 (h ! a) then 0 else 1)"
    by (simp add: same)
  from tgt res have hl: "heap l = h1 @ [tabulate2 (dim0 (h ! a)) (2 * dim1 (h ! a))
            (\<lambda>i p. if p = 0 \<or> p = dim1 (h ! a) then - 1 else if p < dim1 (h ! a) then 0 else 1)]"
    by simp
  then show "heap l =
      h @ (if dbg
           then [tabulate2 (dim0 (lm_logits l)) (dim1 (lm_logits l)) (categorical_sample M (lm_logits l)),
                 tabulate2 (dim0 (h ! a)) (dim1 (h ! a))
                   (\<lambda>i j. if Suc j < dim1 (h ! a) then at2 (h ! a) i (Suc j) else at2 (h ! a) i j)]
           else [tabulate2 (dim0 (lm_logits l)) (dim1 (lm_logits l)) (categorical_sample M (lm_logits l))])
        @ [tabulate2 (dim0 (h ! a)) (2 * dim1 (h ! a))
            (\<lambda>i p. if p = 0 \<or> p = dim1 (h ! a) then - 1 else if p < dim1 (h ! a) then 0 else 1)]"
    by (simp add: h1)
  have "neg_ids l < length h1" by (simp add: h1 n)
  then have "heap l ! neg_ids l = h1 ! neg_ids l" by (simp add: hl nth_append)
  with ids show "cat_dim1 (select_cols (h ! a) None (Some 1))
           (select_cols (heap l ! neg_ids l) None (Some (- 1))) = Inr (arc_ids l)"
    by (simp add: same)
qed

lemma forward_locals_neg_value:
  assumes run: "forward_locals M h a pad dbg = Inr l" and a: "a < length h"
  shows "heap l ! neg_ids l =
     (if dbg
      then tabulate2 (dim0 (h ! a)) (dim1 (h ! a))
             (\<lambda>i j. if Suc j < dim1 (h ! a) then at2 (h ! a) i (Suc j) else at2 (h ! a) i j)
      else tabulate2 (dim0 (lm_logits l)) (dim1 (lm_logits l)) (categorical_sample M (lm_logits l)))"
  by (simp add: forward_locals_heap(1,2) [OF run a] nth_append)

lemma forward_locals_frame:
  assumes run: "forward_locals M h a pad dbg = Inr l" and a: "a < length h" and b: "a' < length h"
  shows "heap l ! a' = h ! a'"
  using b by (simp add: forward_locals_heap(2) [OF run a] nth_append)

lemma forward_locals_lm_shape:
  assumes run: "forward_locals M h a pad dbg = Inr l" and ks: "keeps_shape (model M)"
  shows "dim0 (lm_logits l) = dim0 (h ! a)" and "dim1 (lm_logits l) = dim1 (h ! a)"
proof -
  from run obtain kv1 where
    "model M (h ! a) None None (dynamic_cache M) = Inr (out l, kv1)"
    and lm: "lm_logits l = map_tensor2 (log_softmax M) (map_tensor2 (lm_head M) (out l))"
    by (elim forward_locals_cases)
  with ks have "dim0 (out l) = dim0 (h ! a) \<and> dim1 (out l) = dim1 (h ! a)"
    unfolding keeps_shape_def by blast
  then show "dim0 (lm_logits l) = dim0 (h ! a)" and "dim1 (lm_logits l) = dim1 (h ! a)"
    by (simp_all add: lm map_tensor2_def)
qed

lemma forward_locals_arc_ids:
  assumes run: "forward_locals M h a pad dbg = Inr l" and a: "a < length h"
    and ks: "keeps_shape (model M)"
  shows "arc_ids l = tabulate2 (dim0 (h ! a)) (dim1 (h ! a))
     (\<lambda>i j. if j = 0 then at2 (h ! a) i 0 else at2 (heap l ! neg_ids l) i (j - 1))"
proof -
  let ?x = "h ! a" and ?n = "heap l ! neg_ids l"
  have pos: "0 < dim1 ?x" using run by (rule forward_locals_nonempty)
  have n0: "dim0 ?n = dim0 ?x" and n1: "dim1 ?n = dim1 ?x"
    by (simp_all add: forward_locals_neg_value [OF run a] forward_locals_lm_shape [OF run ks])
  have cat: "cat_dim1 (select_cols ?x None (Some 1)) (select_cols ?n None (Some (- 1))) = Inr (arc_ids l)"
    by (rule forward_locals_heap(4) [OF run a])
  have "cat_dim1 (select_cols ?x None (Some 1)) (select_cols ?n None (Some (- 1))) =
      Inr (tabulate2 (dim0 ?x) (dim1 ?x) (\<lambda>i j. if j = 0 then at2 ?x i 0 else at2 ?n i (j - 1)))"
    unfolding cat_dim1_def select_cols_def slice_range_to_1 slice_range_to_last
    using pos by (auto simp: n0 n1 intro!: tabulate2_cong)
  with cat show ?thesis by simp
qed

lemma tabulate3_cong:
  "(\<And>i j k. i < m \<Longrightarrow> j < n \<Longrightarrow> k < q \<Longrightarrow> f i j k = g i j k) \<Longrightarrow>
     tabulate3 m n q f = tabulate3 m n q g"
  by (simp add: tabulate3_def)

lemma cat_dim1_dims:
  "cat_dim1 s t = Inr c \<Longrightarrow> dim0 c = dim0 s \<and> dim1 c = dim1 s + dim1 t"
  by (auto simp: cat_dim1_def split: if_splits)

lemma forward_Inr_iff:
  "forward M h a pad dbg = Inr (r, h') \<longleftrightarrow>
     (\<exists>l. forward_locals M h a pad dbg = Inr l \<and>
          r = (lm_logits l, arc_preds l, arc_targets l) \<and> h' = heap l)"
  by (auto simp: forward_def bind_Inr_iff)

lemma forward_locals_preds:
  assumes run: "forward_locals M h a pad dbg = Inr l"
  shows "arc_scores l = map_tensor2 (arc_head M) (arc_states l)"
    and "arc_preds l = tabulate3 (dim0 (arc_states l)) (dim1 (arc_states l)) 2
      (\<lambda>i j k. if k = 0 then f32_half (f32_neg (at2 (arc_scores l) i j))
                  else f32_half (at2 (arc_scores l) i j))"
    and "cat_dim1 (out l) (arc_out l) = Inr (arc_states l)"
proof -
  from run have sc: "arc_scores l = map_tensor2 (arc_head M) (arc_states l)"
    by (elim forward_locals_cases)
  from run have st: "stack_last (map_tensor2 (\<lambda>s. f32_half (f32_neg s)) (arc_scores l))
                (map_tensor2 (\<lambda>s. f32_half s) (arc_scores l)) = Inr (arc_preds l)"
    by (elim forward_locals_cases)
  from run have ct: "cat_dim1 (out l) (arc_out l) = Inr (arc_states l)"
    by (elim forward_locals_cases)
  show "arc_scores l = map_tensor2 (arc_head M) (arc_states l)" by (rule sc)
  show "cat_dim1 (out l) (arc_out l) = Inr (arc_states l)" by (rule ct)
  have d: "dim0 (arc_scores l) = dim0 (arc_states l)" "dim1 (arc_scores l) = dim1 (arc_states l)"
    by (simp_all add: sc map_tensor2_def)
  have "stack_last (map_tensor2 (\<lambda>s. f32_half (f32_neg s)) (arc_scores l))
                (map_tensor2 (\<lambda>s. f32_half s) (arc_scores l)) =
      Inr (tabulate3 (dim0 (arc_states l)) (dim1 (arc_states l)) 2
        (\<lambda>i j k. if k = 0 then f32_half (f32_neg (at2 (arc_scores l) i j))
                  else f32_half (at2 (arc_scores l) i j)))"
    unfolding stack_last_def map_tensor2_def
    by (auto simp: d intro!: tabulate3_cong)
  with st show "arc_preds l = tabulate3 (dim0 (arc_states l)) (dim1 (arc_states l)) 2
      (\<lambda>i j k. if k = 0 then f32_half (f32_neg (at2 (arc_scores l) i j))
                  else f32_half (at2 (arc_scores l) i j))"
    by simp
qed

section \<open>When the forward pass returns\<close>

text \<open>
  \<open>forward\<close> raises on an empty sequence (\<open>arc_targets[:, 0]\<close> has no column 0),
  and it returns on every other input once the transformer answers both calls with
  hidden states of the shape of its input.
\<close>

lemma forward_locals_raises_on_empty:
  assumes "dim1 (h ! a) = 0"
  shows "\<exists>e. forward_locals M h a pad dbg = Inl e"
proof (cases "forward_locals M h a pad dbg")
  case (Inl e)
  then show ?thesis by blast
next
  case (Inr l)
  then have "0 < dim1 (h ! a)" by (rule forward_locals_nonempty)
  with assms show ?thesis by simp
qed

lemma forward_locals_returns:
  assumes a: "a < length h" and pos: "0 < dim1 (h ! a)"
    and answers: "\<forall>ids msk pos kv. \<exists>hidden kv'.
       model M ids msk pos kv = Inr (hidden, kv') \<and>
       dim0 hidden = dim0 ids \<and> dim1 hidden = dim1 ids"
  shows "\<exists>l. forward_locals M h a pad dbg = Inr l"
proof -
  let ?x = "h ! a"
  from answers obtain out1 kv1 where
    m1: "model M ?x None None (dynamic_cache M) = Inr (out1, kv1)" and
    o: "dim0 out1 = dim0 ?x" "dim1 out1 = dim1 ?x"
    by blast
  let ?lg = "map_tensor2 (log_softmax M) (map_tensor2 (lm_head M) out1)"
  have lg: "dim0 ?lg = dim0 ?x" "dim1 ?lg = dim1 ?x"
    by (simp_all add: map_tensor2_def o)
  obtain n h1 where
    neg: "negative_samples M h a ?lg dbg = Inr (n, h1)" and
    same: "h1 ! a = ?x" and a1: "a < length h1" and
    nd: "dim0 (h1 ! n) = dim0 ?x" "dim1 (h1 ! n) = dim1 ?x"
  proof (cases dbg)
    case True
    let ?h1 = "h @ [tabulate2 (dim0 ?lg) (dim1 ?lg) (categorical_sample M ?lg),
               tabulate2 (dim0 ?x) (dim1 ?x)
                 (\<lambda>i j. if Suc j < dim1 ?x then at2 ?x i (Suc j) else at2 ?x i j)]"
    from True a show ?thesis
      by (intro that [of "Suc (length h)" ?h1])
        (simp_all add: negative_samples_debug nth_append)
  next
    case False
    let ?h1 = "h @ [tabulate2 (dim0 ?lg) (dim1 ?lg) (categorical_sample M ?lg)]"
    from False a show ?thesis
      by (intro that [of "length h" ?h1])
        (simp_all add: negative_samples_sampled nth_append lg)
  qed
  have "dim0 (select_cols (h1 ! a) None (Some 1)) = dim0 (select_cols (h1 ! n) None (Some (- 1)))"
    by (simp add: select_cols_def slice_range_to_1 slice_range_to_last same nd)
  then obtain ids where
    cat: "cat_dim1 (select_cols (h1 ! a) None (Some 1))
            (select_cols (h1 ! n) None (Some (- 1))) = Inr ids" and
    i0: "dim0 ids = dim0 ?x"
    by (simp add: cat_dim1_def select_cols_def slice_range_to_1 same)
  obtain msk where msk: "get_arc_mask (h1 ! a) True = Inr msk"
    by (simp add: get_arc_mask_cached)
  from answers obtain out2 kv2 where
    m2: "model M ids (Some msk) (Some (get_arc_position_ids (h1 ! a) True)) kv1 = Inr (out2, kv2)"
    and o2: "dim0 out2 = dim0 ids"
    by blast
  obtain st where st: "cat_dim1 out1 out2 = Inr st"
    by (simp add: cat_dim1_def o o2 i0)
  obtain pr where pr: "stack_last (map_tensor2 (\<lambda>s. f32_half (f32_neg s)) (map_tensor2 (arc_head M) st))
      (map_tensor2 (\<lambda>s. f32_half s) (map_tensor2 (arc_head M) st)) = Inr pr"
    by (simp add: stack_last_def map_tensor2_def)
  obtain tg h2 where tg: "get_arc_targets h1 a (dim0 ?x) (dim1 ?x) pad = Inr (tg, h2)"
    using get_arc_targets_result [OF a1 _ _ pos, of "dim0 ?x" pad] same by simp
  show ?thesis
    using m1 neg cat msk m2 st pr tg
    by (simp add: forward_locals_def Let_def bind_def)
qed

section \<open>The example runs\<close>

lemma example_keeps_shape: "keeps_shape (model example_model)"
  by (simp add: keeps_shape_def example_model_def map_tensor2_def)

lemma example_addr: "0 < length example_heap"
  by (simp add: example_heap_def)

lemma example_run_sampled:
  "forward_locals example_model example_heap 0 0 False = Inr example_sampled"
  by code_simp

lemma example_run_nopad:
  "forward_locals example_model example_heap 0 3 False = Inr example_nopad"
  by code_simp

lemma example_run_overflow:
  "forward_locals overflow_model example_heap 0 0 False = Inr example_overflow"
  by code_simp

lemma example_run_debug:
  "forward_locals example_model example_heap 0 0 True = Inr example_debug"
  by code_simp

lemma example_run_rerun:
  "forward_locals example_model (example_heap @ [example_input]) 1 3 True = Inr example_rerun"
  by code_simp

section \<open>The claims\<close>

text \<open>
  Claim C1. For a sequence length \<open>L\<close>, the uncached mask is a \<open>2L \<times> 2L\<close> matrix of
  four \<open>L \<times> L\<close> quadrants: top left blocked exactly strictly above the diagonal, top
  right blocked everywhere, bottom left blocked on and above the diagonal, bottom right
  blocked everywhere but on the diagonal. It holds for every \<open>L\<close>, so for every
  \<open>L \<ge> 1\<close>.
\<close>

theorem uncached_mask_quadrants:
  assumes "dim1 x = L"
  shows "\<exists>m. get_arc_mask x False = Inr m \<and> dim0 m = 2 * L \<and> dim1 m = 2 * L \<and> wf2 m \<and>
     (\<forall>i<L. \<forall>j<L.
        at2 m i j = (i < j) \<and>
        at2 m i (L + j) = True \<and>
        at2 m (L + i) j = (i \<le> j) \<and>
        at2 m (L + i) (L + j) = (i \<noteq> j))"
  unfolding get_arc_mask_uncached assms [symmetric] by simp

theorem uncached_mask_quadrants_witness:
  "dim1 example_input = 4 \<and>
   (\<exists>m. get_arc_mask example_input False = Inr m \<and> dim0 m = 8 \<and> dim1 m = 8 \<and>
      \<not> at2 m 2 1 \<and> at2 m 2 5 \<and> \<not> at2 m 6 1 \<and> at2 m 6 5 \<and>
      at2 m 1 2 \<and> at2 m 1 6 \<and> at2 m 5 2 \<and> at2 m 5 6 \<and>
      \<not> at2 m 2 2 \<and> at2 m 6 2 \<and> \<not> at2 m 6 6)"
proof -
  have L: "dim1 example_input = 4" by (simp add: example_input_def)
  from uncached_mask_quadrants [OF L] obtain m where
    m: "get_arc_mask example_input False = Inr m" "dim0 m = 2 * 4" "dim1 m = 2 * 4" and
    q: "\<forall>i<4. \<forall>j<4. at2 m i j = (i < j) \<and> at2 m i (4 + j) = True \<and>
          at2 m (4 + i) j = (i \<le> j) \<and> at2 m (4 + i) (4 + j) = (i \<noteq> j)"
    by blast
  from q [rule_format, of 2 1] have a: "\<not> at2 m 2 1 \<and> at2 m 2 5 \<and> \<not> at2 m 6 1 \<and> at2 m 6 5"
    by simp
  from q [rule_format, of 1 2] have b: "at2 m 1 2 \<and> at2 m 1 6 \<and> at2 m 5 2 \<and> at2 m 5 6"
    by simp
  from q [rule_format, of 2 2] have c: "\<not> at2 m 2 2 \<and> at2 m 6 2 \<and> \<not> at2 m 6 6"
    by simp
  from L m a b c show ?thesis by simp
qed

text \<open>
  Claim C2. The cached mask has shape \<open>[L, 2L]\<close>, and row \<open>i\<close> is open (\<open>False\<close>)
  exactly at the cached columns \<open>j < i\<close> and at its own column \<open>L + i\<close> of the second
  half: the cached token at its own index \<open>i\<close> and every other arc position are
  blocked.
\<close>

theorem cached_mask_pattern:
  assumes "dim1 x = L"
  shows "\<exists>m. get_arc_mask x True = Inr m \<and> dim0 m = L \<and> dim1 m = 2 * L \<and> wf2 m \<and>
     (\<forall>i<L.
        (\<forall>j<2 * L. (\<not> at2 m i j) = (j < i \<or> j = L + i)) \<and>
        at2 m i i \<and>
        (\<forall>j<L. j \<noteq> i \<longrightarrow> at2 m i (L + j)))"
  unfolding get_arc_mask_cached assms [symmetric] by auto

theorem cached_mask_pattern_witness:
  "dim1 example_input = 4 \<and>
   (\<exists>m. get_arc_mask example_input True = Inr m \<and> dim0 m = 4 \<and> dim1 m = 8 \<and>
      \<not> at2 m 2 0 \<and> \<not> at2 m 2 1 \<and> at2 m 2 2 \<and> at2 m 2 3 \<and>
      at2 m 2 5 \<and> \<not> at2 m 2 6 \<and> at2 m 2 7)"
proof -
  have L: "dim1 example_input = 4" by (simp add: example_input_def)
  from cached_mask_pattern [OF L] obtain m where
    m: "get_arc_mask example_input True = Inr m" "dim0 m = 4" "dim1 m = 2 * 4" and
    r: "\<forall>i<4.
          (\<forall>j<2 * 4. (\<not> at2 m i j) = (j < i \<or> j = 4 + i)) \<and>
          at2 m i i \<and>
          (\<forall>j<4. j \<noteq> i \<longrightarrow> at2 m i (4 + j))"
    by blast
  from r have q: "\<forall>j<2 * 4. (\<not> at2 m 2 j) = (j < 2 \<or> j = 4 + 2)"
    and own: "at2 m 2 2" and others: "\<forall>j<4. j \<noteq> 2 \<longrightarrow> at2 m 2 (4 + j)"
    by simp_all
  have "\<not> at2 m 2 0" "\<not> at2 m 2 1" "at2 m 2 2" "at2 m 2 3" "at2 m 2 5" "\<not> at2 m 2 6" "at2 m 2 7"
    using q [rule_format, of 0] q [rule_format, of 1] own
      q [rule_format, of 3] others [rule_format, of 1] q [rule_format, of 6]
      others [rule_format, of 3]
    by simp_all
  with L m show ?thesis by simp
qed

text \<open>
  Claim C3. When \<open>forward\<close> returns, \<open>arc_ids\<close> has the shape \<open>[batch, L]\<close> of the
  input, its column 0 is column 0 of \<open>input_ids\<close>, and its column \<open>t\<close>, for
  \<open>1 \<le> t < L\<close>, is column \<open>t - 1\<close> of \<open>neg_ids\<close>, the tensor the negative sampler
  left.
\<close>

theorem arc_ids_shifted_negatives:
  assumes run: "forward_locals M h a pad dbg = Inr l" and a: "a < length h"
    and ks: "keeps_shape (model M)"
  shows "dim0 (arc_ids l) = dim0 (h ! a) \<and> dim1 (arc_ids l) = dim1 (h ! a) \<and> wf2 (arc_ids l) \<and>
     (\<forall>b<dim0 (h ! a). at2 (arc_ids l) b 0 = at2 (h ! a) b 0 \<and>
        (\<forall>t. 1 \<le> t \<and> t < dim1 (h ! a) \<longrightarrow>
           at2 (arc_ids l) b t = at2 (heap l ! neg_ids l) b (t - 1)))"
proof -
  have pos: "0 < dim1 (h ! a)" using run by (rule forward_locals_nonempty)
  show ?thesis
    unfolding forward_locals_arc_ids [OF run a ks] using pos by auto
qed

theorem arc_ids_shifted_negatives_witness:
  "forward_locals example_model example_heap 0 0 False = Inr example_sampled \<and>
   0 < length example_heap \<and> keeps_shape (model example_model) \<and>
   dim0 (example_heap ! 0) = 1 \<and> dim1 (example_heap ! 0) = 4 \<and>
   dim0 (arc_ids example_sampled) = 1 \<and> dim1 (arc_ids example_sampled) = 4 \<and>
   at2 (arc_ids example_sampled) 0 0 = 5 \<and>
   at2 (heap example_sampled ! neg_ids example_sampled) 0 1 = 11 \<and>
   at2 (arc_ids example_sampled) 0 2 = 11"
proof -
  have d: "dim0 (example_heap ! 0) = 1" "dim1 (example_heap ! 0) = 4"
    "at2 (example_heap ! 0) 0 0 = 5"
    by (simp_all add: example_heap_def example_input_def at2_def)
  have n: "at2 (heap example_sampled ! neg_ids example_sampled) 0 1 = 11"
    by (simp add: example_sampled_def at2_def)
  note t = arc_ids_shifted_negatives [OF example_run_sampled example_addr example_keeps_shape]
  from t have s: "dim0 (arc_ids example_sampled) = 1" "dim1 (arc_ids example_sampled) = 4"
    by (simp_all add: d)
  from t have "\<forall>b<1. at2 (arc_ids example_sampled) b 0 = 5 \<and>
      (\<forall>t. 1 \<le> t \<and> t < 4 \<longrightarrow> at2 (arc_ids example_sampled) b t =
         at2 (heap example_sampled ! neg_ids example_sampled) b (t - 1))"
    by (simp add: d)
  then have p0: "at2 (arc_ids example_sampled) 0 0 = 5" and
    q: "\<forall>t. 1 \<le> t \<and> t < 4 \<longrightarrow> at2 (arc_ids example_sampled) 0 t =
         at2 (heap example_sampled ! neg_ids example_sampled) 0 (t - 1)"
    by simp_all
  from q [rule_format, of 2] have "at2 (arc_ids example_sampled) 0 2 =
      at2 (heap example_sampled ! neg_ids example_sampled) 0 1"
    by simp
  with p0 n have "at2 (arc_ids example_sampled) 0 0 = 5" and "at2 (arc_ids example_sampled) 0 2 = 11"
    by simp_all
  with example_run_sampled example_addr example_keeps_shape d s n show ?thesis by simp
qed

text \<open>
  Claim C4. When \<open>forward\<close> returns, every target that is not the ignore label \<open>-1\<close>
  is 0 in the first half \<open>[0, L)\<close> and 1 in the second half \<open>[L, 2L)\<close>; and when no
  token of the input is the pad token, exactly the positions 0 and \<open>L\<close> carry \<open>-1\<close>.
\<close>

theorem arc_targets_labels:
  assumes run: "forward_locals M h a pad dbg = Inr l" and a: "a < length h"
  shows "\<forall>b<dim0 (h ! a). \<forall>p<2 * dim1 (h ! a).
     (at2 (arc_targets l) b p \<noteq> - 1 \<longrightarrow>
        at2 (arc_targets l) b p = (if p < dim1 (h ! a) then 0 else 1)) \<and>
     ((\<forall>b'<dim0 (h ! a). \<forall>t<dim1 (h ! a). at2 (h ! a) b' t \<noteq> pad) \<longrightarrow>
        at2 (arc_targets l) b p =
          (if p = 0 \<or> p = dim1 (h ! a) then - 1 else if p < dim1 (h ! a) then 0 else 1))"
  unfolding forward_locals_heap(3) [OF run a] by auto

theorem arc_targets_labels_witness:
  "forward_locals example_model example_heap 0 3 False = Inr example_nopad \<and>
   0 < length example_heap \<and>
   dim0 (example_heap ! 0) = 1 \<and> dim1 (example_heap ! 0) = 4 \<and>
   list_all (\<lambda>r. list_all (\<lambda>v. v \<noteq> 3) r) (rows (example_heap ! 0)) \<and>
   at2 (arc_targets example_nopad) 0 0 = - 1 \<and> at2 (arc_targets example_nopad) 0 3 = 0 \<and>
   at2 (arc_targets example_nopad) 0 4 = - 1 \<and> at2 (arc_targets example_nopad) 0 7 = 1 \<and>
   at2 (arc_targets example_nopad) 0 5 \<noteq> - 1 \<and> at2 (arc_targets example_nopad) 0 5 = 1"
proof -
  have ne: "at2 (arc_targets example_nopad) 0 5 \<noteq> - 1"
    by (simp add: example_nopad_def example_sampled_def at2_def)
  have d: "dim0 (example_heap ! 0) = 1" "dim1 (example_heap ! 0) = 4"
    by (simp_all add: example_heap_def example_input_def)
  have np: "\<forall>b'<1. \<forall>t<4. at2 (example_heap ! 0) b' t \<noteq> 3"
  proof (intro allI impI)
    fix b' t :: nat
    assume "b' < 1" and "t < 4"
    then have "b' = 0" and "t = 0 \<or> t = 1 \<or> t = 2 \<or> t = 3" by auto
    then show "at2 (example_heap ! 0) b' t \<noteq> 3"
      by (auto simp: example_heap_def example_input_def at2_def)
  qed
  have la: "list_all (\<lambda>r. list_all (\<lambda>v. v \<noteq> 3) r) (rows (example_heap ! 0))"
    by (simp add: example_heap_def example_input_def)
  note t = arc_targets_labels [OF example_run_nopad example_addr, unfolded d, rule_format]
  have "at2 (arc_targets example_nopad) 0 0 = - 1" "at2 (arc_targets example_nopad) 0 3 = 0"
    "at2 (arc_targets example_nopad) 0 4 = - 1" "at2 (arc_targets example_nopad) 0 7 = 1"
    using t [of 0 0, THEN conjunct2, rule_format, OF _ _ np [rule_format]]
      t [of 0 3, THEN conjunct2, rule_format, OF _ _ np [rule_format]]
      t [of 0 4, THEN conjunct2, rule_format, OF _ _ np [rule_format]]
      t [of 0 7, THEN conjunct2, rule_format, OF _ _ np [rule_format]]
    by simp_all
  moreover from t [of 0 5, THEN conjunct1, rule_format, OF _ _ ne]
  have "at2 (arc_targets example_nopad) 0 5 = 1" by simp
  ultimately show ?thesis using example_run_nopad example_addr d la ne by simp
qed

text \<open>
  Claim C5. When \<open>forward\<close> returns, in every batch row the targets at positions 0 and
  \<open>L\<close> are \<open>-1\<close>, and so is the target at every position where the caller's
  \<open>input_ids\<close>, concatenated with itself, holds the pad token. A target is \<open>-1\<close> at
  no other position, so the sampled ids play no part.
\<close>

theorem arc_targets_ignore:
  assumes run: "forward_locals M h a pad dbg = Inr l" and a: "a < length h"
  shows "\<exists>doubled. cat_dim1 (h ! a) (h ! a) = Inr doubled \<and>
     (\<forall>b<dim0 (h ! a).
        at2 (arc_targets l) b 0 = - 1 \<and>
        at2 (arc_targets l) b (dim1 (h ! a)) = - 1 \<and>
        (\<forall>p<2 * dim1 (h ! a).
           (at2 doubled b p = pad \<longrightarrow> at2 (arc_targets l) b p = - 1) \<and>
           (at2 (arc_targets l) b p = - 1) = (p = 0 \<or> p = dim1 (h ! a) \<or> at2 doubled b p = pad)))"
proof -
  have pos: "0 < dim1 (h ! a)" using run by (rule forward_locals_nonempty)
  show ?thesis
    unfolding forward_locals_heap(3) [OF run a] cat_dim1_def using pos by auto
qed

theorem arc_targets_ignore_witness:
  "forward_locals example_model example_heap 0 0 False = Inr example_sampled \<and>
   0 < length example_heap \<and>
   dim0 (example_heap ! 0) = 1 \<and> dim1 (example_heap ! 0) = 4 \<and>
   (\<exists>doubled. cat_dim1 (example_heap ! 0) (example_heap ! 0) = Inr doubled \<and>
      at2 doubled 0 3 = 0 \<and> at2 doubled 0 7 = 0 \<and> at2 doubled 0 1 = 6 \<and>
      at2 (arc_targets example_sampled) 0 0 = - 1 \<and>
      at2 (arc_targets example_sampled) 0 4 = - 1 \<and>
      at2 (arc_targets example_sampled) 0 3 = - 1 \<and>
      at2 (arc_targets example_sampled) 0 7 = - 1 \<and>
      at2 (arc_targets example_sampled) 0 1 \<noteq> - 1)"
proof -
  have d: "dim0 (example_heap ! 0) = 1" "dim1 (example_heap ! 0) = 4"
    by (simp_all add: example_heap_def example_input_def)
  from arc_targets_ignore [OF example_run_sampled example_addr, unfolded d]
  obtain doubled where
    c: "cat_dim1 (example_heap ! 0) (example_heap ! 0) = Inr doubled" and
    q: "\<forall>b<1. at2 (arc_targets example_sampled) b 0 = - 1 \<and>
          at2 (arc_targets example_sampled) b 4 = - 1 \<and>
          (\<forall>p<2 * 4.
             (at2 doubled b p = 0 \<longrightarrow> at2 (arc_targets example_sampled) b p = - 1) \<and>
             (at2 (arc_targets example_sampled) b p = - 1) =
               (p = 0 \<or> p = 4 \<or> at2 doubled b p = 0))"
    by blast
  have x: "example_heap ! 0 = example_input" by (simp add: example_heap_def)
  have e: "at2 example_input 0 3 = 0" "at2 example_input 0 1 = 6"
    by (simp_all add: example_input_def at2_def)
  have dx: "dim0 example_input = 1" "dim1 example_input = 4"
    by (simp_all add: example_input_def)
  from c [unfolded x cat_dim1_def dx] have "doubled = tabulate2 1 (4 + 4)
      (\<lambda>i j. if j < 4 then at2 example_input i j else at2 example_input i (j - 4))"
    by simp
  with e have v: "at2 doubled 0 3 = 0" "at2 doubled 0 7 = 0" "at2 doubled 0 1 = 6"
    by simp_all
  from q have q0: "at2 (arc_targets example_sampled) 0 0 = - 1"
    "at2 (arc_targets example_sampled) 0 4 = - 1"
    and qp: "\<forall>p<2 * 4.
             (at2 doubled 0 p = 0 \<longrightarrow> at2 (arc_targets example_sampled) 0 p = - 1) \<and>
             (at2 (arc_targets example_sampled) 0 p = - 1) =
               (p = 0 \<or> p = 4 \<or> at2 doubled 0 p = 0)"
    by simp_all
  have "at2 (arc_targets example_sampled) 0 3 = - 1" "at2 (arc_targets example_sampled) 0 7 = - 1"
    "at2 (arc_targets example_sampled) 0 1 \<noteq> - 1"
    using qp [rule_format, of 3] qp [rule_format, of 7] qp [rule_format, of 1] v by simp_all
  with example_run_sampled example_addr d c v q0 show ?thesis by simp
qed

text \<open>
  Claim C6. For an input of shape \<open>[batch, L]\<close> and a transformer that keeps the shape,
  the class scores \<open>forward\<close> returns have shape \<open>[batch, 2L, 2]\<close>, the targets it
  returns have shape \<open>[batch, 2L]\<close>, and every target is \<open>-1\<close>, 0 or 1.
\<close>

theorem forward_shapes:
  assumes run: "forward M h a pad dbg = Inr ((lg, preds, tgts), h')" and a: "a < length h"
    and ks: "keeps_shape (model M)"
  shows "size0 preds = dim0 (h ! a) \<and> size1 preds = 2 * dim1 (h ! a) \<and> size2 preds = 2 \<and>
     wf3 preds \<and>
     dim0 tgts = dim0 (h ! a) \<and> dim1 tgts = 2 * dim1 (h ! a) \<and> wf2 tgts \<and>
     (\<forall>b<dim0 (h ! a). \<forall>p<2 * dim1 (h ! a). at2 tgts b p \<in> {- 1, 0, 1})"
proof -
  from run obtain l where l: "forward_locals M h a pad dbg = Inr l"
    and p: "preds = arc_preds l" and t: "tgts = arc_targets l"
    unfolding forward_Inr_iff by auto
  from l obtain kv1 h1 where
    m1: "model M (h ! a) None None (dynamic_cache M) = Inr (out l, kv1)" and
    ids: "cat_dim1 (select_cols (h1 ! a) None (Some 1))
              (select_cols (h1 ! neg_ids l) None (Some (- 1))) = Inr (arc_ids l)" and
    m2: "model M (arc_ids l) (Some (arc_mask l)) (Some (arc_position_ids l)) kv1 = Inr (arc_out l, kv l)"
    by (elim forward_locals_cases)
  have o: "dim0 (out l) = dim0 (h ! a)" "dim1 (out l) = dim1 (h ! a)"
    using ks m1 unfolding keeps_shape_def by blast+
  have ao: "dim0 (arc_out l) = dim0 (arc_ids l)" "dim1 (arc_out l) = dim1 (arc_ids l)"
    using ks m2 unfolding keeps_shape_def by blast+
  have "cat_dim1 (out l) (arc_out l) = Inr (arc_states l)"
    by (rule forward_locals_preds(3) [OF l])
  then have st: "dim0 (arc_states l) = dim0 (h ! a)" "dim1 (arc_states l) = dim1 (h ! a) + dim1 (arc_out l)"
    using cat_dim1_dims [of "out l" "arc_out l" "arc_states l"] by (simp_all add: o)
  show ?thesis
    unfolding p t forward_locals_preds(2) [OF l] forward_locals_heap(3) [OF l a]
    using st ao by (auto simp: forward_locals_arc_ids [OF l a ks])
qed

theorem forward_shapes_witness:
  "forward example_model example_heap 0 0 False =
     Inr ((lm_logits example_sampled, arc_preds example_sampled, arc_targets example_sampled),
          heap example_sampled) \<and>
   0 < length example_heap \<and> keeps_shape (model example_model) \<and>
   dim0 (example_heap ! 0) = 1 \<and> dim1 (example_heap ! 0) = 4 \<and>
   size0 (arc_preds example_sampled) = 1 \<and> size1 (arc_preds example_sampled) = 8 \<and>
   size2 (arc_preds example_sampled) = 2 \<and>
   dim0 (arc_targets example_sampled) = 1 \<and> dim1 (arc_targets example_sampled) = 8 \<and>
   at2 (arc_targets example_sampled) 0 5 \<in> {- 1, 0, 1}"
proof -
  have d: "dim0 (example_heap ! 0) = 1" "dim1 (example_heap ! 0) = 4"
    by (simp_all add: example_heap_def example_input_def)
  have r: "forward example_model example_heap 0 0 False =
     Inr ((lm_logits example_sampled, arc_preds example_sampled, arc_targets example_sampled),
          heap example_sampled)"
    by (simp add: forward_def bind_def example_run_sampled)
  note t = forward_shapes [OF r example_addr example_keeps_shape, unfolded d]
  from t have s: "size0 (arc_preds example_sampled) = 1" "size1 (arc_preds example_sampled) = 8"
    "size2 (arc_preds example_sampled) = 2"
    "dim0 (arc_targets example_sampled) = 1" "dim1 (arc_targets example_sampled) = 8"
    by simp_all
  from t have "\<forall>b<1. \<forall>p<2 * 4. at2 (arc_targets example_sampled) b p \<in> {- 1, 0, 1}"
    by blast
  from this [rule_format, of 0 5] have "at2 (arc_targets example_sampled) 0 5 \<in> {- 1, 0, 1}"
    by simp
  with r example_addr example_keeps_shape d s show ?thesis by simp
qed

text \<open>
  Claim C7, as amended. At every batch row \<open>b\<close> and position \<open>p\<close> the two class
  scores are the float32 results of \<open>(-s)/2\<close> and \<open>s/2\<close>, where \<open>s\<close> is the score
  the arc head gives the hidden state at \<open>(b, p)\<close>, and each is the negation of the
  other. Their sum is exactly zero when \<open>s\<close> is finite, and NaN when \<open>s\<close> is infinite
  or NaN.
\<close>

theorem arc_preds_float_pair:
  assumes run: "forward_locals M h a pad dbg = Inr l"
  shows "size0 (arc_preds l) = dim0 (arc_states l) \<and> size1 (arc_preds l) = dim1 (arc_states l) \<and>
     (\<forall>b<size0 (arc_preds l). \<forall>p<size1 (arc_preds l).
        at2 (arc_scores l) b p = arc_head M (at2 (arc_states l) b p) \<and>
        at3 (arc_preds l) b p 0 = f32_half (f32_neg (at2 (arc_scores l) b p)) \<and>
        at3 (arc_preds l) b p 1 = f32_half (at2 (arc_scores l) b p) \<and>
        at3 (arc_preds l) b p 0 = f32_neg (at3 (arc_preds l) b p 1) \<and>
        f32_add (at3 (arc_preds l) b p 0) (at3 (arc_preds l) b p 1) =
          (if is_finite (at2 (arc_scores l) b p) then Finite False 0 (- 149) else NaN))"
  unfolding forward_locals_preds(2) [OF run]
  by (simp add: forward_locals_preds(1) [OF run] map_tensor2_def f32_half_neg f32_add_neg_half)

theorem arc_preds_float_pair_witness:
  "forward_locals example_model example_heap 0 0 False = Inr example_sampled \<and>
   size0 (arc_preds example_sampled) = 1 \<and> size1 (arc_preds example_sampled) = 8 \<and>
   at2 (arc_scores example_sampled) 0 6 = Finite False 11 (- 149) \<and>
   is_finite (at2 (arc_scores example_sampled) 0 6) \<and>
   at3 (arc_preds example_sampled) 0 6 0 = Finite True 6 (- 149) \<and>
   at3 (arc_preds example_sampled) 0 6 1 = Finite False 6 (- 149) \<and>
   f32_add (at3 (arc_preds example_sampled) 0 6 0) (at3 (arc_preds example_sampled) 0 6 1) =
     Finite False 0 (- 149)"
proof -
  have sz: "size0 (arc_preds example_sampled) = 1" "size1 (arc_preds example_sampled) = 8"
    and sc: "at2 (arc_scores example_sampled) 0 6 = Finite False 11 (- 149)"
    by (simp_all add: example_sampled_def at2_def)
  have fin: "is_finite (at2 (arc_scores example_sampled) 0 6)"
    by (simp add: sc is_finite_def)
  from arc_preds_float_pair [OF example_run_sampled, unfolded sz]
  have "\<forall>b<1. \<forall>p<8.
        at2 (arc_scores example_sampled) b p =
          arc_head example_model (at2 (arc_states example_sampled) b p) \<and>
        at3 (arc_preds example_sampled) b p 0 =
          f32_half (f32_neg (at2 (arc_scores example_sampled) b p)) \<and>
        at3 (arc_preds example_sampled) b p 1 = f32_half (at2 (arc_scores example_sampled) b p) \<and>
        at3 (arc_preds example_sampled) b p 0 = f32_neg (at3 (arc_preds example_sampled) b p 1) \<and>
        f32_add (at3 (arc_preds example_sampled) b p 0) (at3 (arc_preds example_sampled) b p 1) =
          (if is_finite (at2 (arc_scores example_sampled) b p) then Finite False 0 (- 149)
           else NaN)"
    by blast
  from this [rule_format, of 0 6] fin have
    "at3 (arc_preds example_sampled) 0 6 0 = Finite True 6 (- 149)"
    "at3 (arc_preds example_sampled) 0 6 1 = Finite False 6 (- 149)"
    "f32_add (at3 (arc_preds example_sampled) 0 6 0) (at3 (arc_preds example_sampled) 0 6 1) =
       Finite False 0 (- 149)"
    by (simp_all add: sc half_even_def is_finite_def units_def Let_def)
  with example_run_sampled sz sc fin show ?thesis by simp
qed

text \<open>
  The claim as first stated, that the two scores sum to zero at every position of every
  call, fails when the arc head overflows: the scores are \<open>-inf\<close> and \<open>+inf\<close>, and
  their sum is NaN.
\<close>

theorem arc_preds_sum_counterexample:
  "forward_locals overflow_model example_heap 0 0 False = Inr example_overflow \<and>
   at2 (arc_scores example_overflow) 0 1 = Infinity False \<and>
   at3 (arc_preds example_overflow) 0 1 0 = Infinity True \<and>
   at3 (arc_preds example_overflow) 0 1 1 = Infinity False \<and>
   f32_add (at3 (arc_preds example_overflow) 0 1 0) (at3 (arc_preds example_overflow) 0 1 1) =
     NaN \<and>
   \<not> is_zero
     (f32_add (at3 (arc_preds example_overflow) 0 1 0) (at3 (arc_preds example_overflow) 0 1 1))"
proof -
  have v: "at2 (arc_scores example_overflow) 0 1 = Infinity False"
    "at3 (arc_preds example_overflow) 0 1 0 = Infinity True"
    "at3 (arc_preds example_overflow) 0 1 1 = Infinity False"
    by (simp_all add: example_overflow_def at2_def at3_def)
  show ?thesis
    using v example_run_overflow by (simp add: is_zero_def)
qed

text \<open>
  Claim C8. With \<open>debug=True\<close> the tensor \<open>neg_ids\<close> has column \<open>t + 1\<close> of the input
  at every column \<open>t < L - 1\<close>, and two calls on the same input leave the same
  \<open>neg_ids\<close>, whatever the sampler draws, whatever the model, the pad id and the rest of
  the store are.
\<close>

theorem debug_negatives_deterministic:
  assumes run: "forward_locals M h a pad True = Inr l" and a: "a < length h"
    and run': "forward_locals M' h' a' pad' True = Inr l'" and a': "a' < length h'"
    and same: "h' ! a' = h ! a"
  shows "heap l' ! neg_ids l' = heap l ! neg_ids l \<and>
     dim0 (heap l ! neg_ids l) = dim0 (h ! a) \<and> dim1 (heap l ! neg_ids l) = dim1 (h ! a) \<and>
     (\<forall>b<dim0 (h ! a). \<forall>t. t + 1 < dim1 (h ! a) \<longrightarrow>
        at2 (heap l ! neg_ids l) b t = at2 (h ! a) b (t + 1))"
  by (simp add: forward_locals_neg_value [OF run a]
      forward_locals_neg_value [OF run' a', unfolded same])

theorem debug_negatives_deterministic_witness:
  "forward_locals example_model example_heap 0 0 True = Inr example_debug \<and>
   0 < length example_heap \<and>
   forward_locals example_model (example_heap @ [example_input]) 1 3 True =
     Inr (example_rerun) \<and>
   1 < length (example_heap @ [example_input]) \<and>
   (example_heap @ [example_input]) ! 1 = example_heap ! 0 \<and>
   dim0 (example_heap ! 0) = 1 \<and> dim1 (example_heap ! 0) = 4 \<and>
   heap example_rerun ! neg_ids example_rerun = heap example_debug ! neg_ids example_debug \<and>
   at2 (heap example_debug ! neg_ids example_debug) 0 1 = 7 \<and>
   at2 (example_heap ! 0) 0 2 = 7"
proof -
  have d: "dim0 (example_heap ! 0) = 1" "dim1 (example_heap ! 0) = 4"
    "at2 (example_heap ! 0) 0 2 = 7"
    by (simp_all add: example_heap_def example_input_def at2_def)
  have a': "1 < length (example_heap @ [example_input])"
    and same: "(example_heap @ [example_input]) ! 1 = example_heap ! 0"
    by (simp_all add: example_heap_def)
  note t = debug_negatives_deterministic
    [OF example_run_debug example_addr example_run_rerun a' same, unfolded d]
  from t have e: "heap example_rerun ! neg_ids example_rerun =
      heap example_debug ! neg_ids example_debug" by blast
  from t have "\<forall>b<1. \<forall>t. t + 1 < 4 \<longrightarrow>
      at2 (heap example_debug ! neg_ids example_debug) b t = at2 (example_heap ! 0) b (t + 1)"
    by blast
  from this [rule_format, of 0 1] d(3)
  have "at2 (heap example_debug ! neg_ids example_debug) 0 1 = 7"
    by (simp add: numeral_2_eq_2)
  with example_run_debug example_run_rerun example_addr a' same d e show ?thesis by simp
qed

text \<open>
  Claim C9. When \<open>forward\<close> returns, the caller's \<open>input_ids\<close> holds what it held
  before, in both modes, as does every tensor that existed before the call;
  \<open>neg_ids\<close> is a tensor allocated during the call.
\<close>

theorem forward_keeps_input_ids:
  assumes run: "forward_locals M h a pad dbg = Inr l" and a: "a < length h"
  shows "forward M h a pad dbg = Inr ((lm_logits l, arc_preds l, arc_targets l), heap l) \<and>
     heap l ! a = h ! a \<and>
     length h \<le> neg_ids l \<and> neg_ids l < length (heap l) \<and>
     (\<forall>a'<length h. heap l ! a' = h ! a')"
  using a
  by (simp add: forward_def bind_def run forward_locals_heap(1,2) [OF run a] nth_append)

theorem forward_keeps_input_ids_witness:
  "forward_locals example_model example_heap 0 0 True = Inr example_debug \<and>
   0 < length example_heap \<and>
   forward example_model example_heap 0 0 True =
     Inr ((lm_logits example_debug, arc_preds example_debug, arc_targets example_debug),
          heap example_debug) \<and>
   heap example_debug ! 0 = example_input \<and> neg_ids example_debug = 2 \<and>
   length example_heap = 1"
proof -
  note t = forward_keeps_input_ids [OF example_run_debug example_addr]
  from t have "forward example_model example_heap 0 0 True =
     Inr ((lm_logits example_debug, arc_preds example_debug, arc_targets example_debug),
          heap example_debug)" by blast
  moreover from t have "heap example_debug ! 0 = example_heap ! 0" by blast
  then have "heap example_debug ! 0 = example_input" by (simp add: example_heap_def)
  moreover have "neg_ids example_debug = 2" "length example_heap = 1"
    by (simp_all add: example_debug_def example_heap_def)
  ultimately show ?thesis using example_run_debug example_addr by simp
qed

text \<open>
  Claim C10. With \<open>debug=True\<close>, \<open>arc_ids\<close> is the input itself. (A call that
  returns has \<open>L \<ge> 1\<close>, by \<open>forward_locals_nonempty\<close>.)
\<close>

theorem debug_arc_ids_roundtrip:
  assumes run: "forward_locals M h a pad True = Inr l" and a: "a < length h"
    and wf: "wf2 (h ! a)"
  shows "arc_ids l = h ! a"
proof -
  let ?x = "h ! a" and ?n = "heap l ! neg_ids l"
  have pos: "0 < dim1 ?x" using run by (rule forward_locals_nonempty)
  have n: "?n = tabulate2 (dim0 ?x) (dim1 ?x)
             (\<lambda>i j. if Suc j < dim1 ?x then at2 ?x i (Suc j) else at2 ?x i j)"
    by (simp add: forward_locals_neg_value [OF run a])
  have cat: "cat_dim1 (select_cols ?x None (Some 1)) (select_cols ?n None (Some (- 1))) = Inr (arc_ids l)"
    by (rule forward_locals_heap(4) [OF run a])
  have "cat_dim1 (select_cols ?x None (Some 1)) (select_cols ?n None (Some (- 1))) =
      Inr (tabulate2 (dim0 ?x) (dim1 ?x) (at2 ?x))"
    unfolding n cat_dim1_def select_cols_def slice_range_to_1 slice_range_to_last
    using pos by (auto intro!: tabulate2_cong)
  with cat have "arc_ids l = tabulate2 (dim0 ?x) (dim1 ?x) (at2 ?x)" by simp
  then show ?thesis using wf2_eq_tabulate2 [OF wf] by simp
qed

theorem debug_arc_ids_roundtrip_witness:
  "forward_locals example_model example_heap 0 0 True = Inr example_debug \<and>
   0 < length example_heap \<and> wf2 (example_heap ! 0) \<and>
   arc_ids example_debug = example_input"
proof -
  have w: "wf2 (example_heap ! 0)"
    by (simp add: wf2_def example_heap_def example_input_def)
  from debug_arc_ids_roundtrip [OF example_run_debug example_addr w]
  have "arc_ids example_debug = example_input" by (simp add: example_heap_def)
  with example_run_debug example_addr w show ?thesis by simp
qed

end
